theory Spec2Isabelle
  imports Complex_Main "HOL-Library.Word" "HOL-Library.Signed_Division"
begin

unbundle bit_operations_syntax

chapter \<open>Webcamoid media elements: AAC encoder, AV1 encoder, WebM muxer, PipeWire device\<close>

text \<open>
  A shallow embedding of the element code of libAvKys: the faac audio encoder
  (\<^verbatim>\<open>audioencoderfaacelement.cpp\<close>), the rav1e video encoder, the WebM muxer
  (\<^verbatim>\<open>videomuxerwebmelement.cpp\<close>) and the PipeWire audio device
  (\<^verbatim>\<open>audiodevpipewire.cpp\<close>).

  Conventions. A C++ \<^verbatim>\<open>int\<close> is a \<^typ>\<open>32 word\<close>, \<^verbatim>\<open>qint64\<close>, \<^verbatim>\<open>quint64\<close>,
  \<^verbatim>\<open>uint64_t\<close> and \<^verbatim>\<open>qsizetype\<close> are \<^typ>\<open>64 word\<close>; arithmetic wraps around, signed
  comparisons are \<open>\<le>s\<close> and \<open><s\<close>, unsigned ones \<open>\<le>\<close> and \<open><\<close>. Member variables
  become record fields with the name they have in the source. Calls into the native
  libraries (faac, libwebm, PipeWire) and into helper elements are recorded, in order, in
  a field \<open>calls\<close>; what a native call returns is read from an environment record, since
  it is decided outside this code. Signals emitted by an element are recorded in a field
  \<open>emitted\<close>.
\<close>

section \<open>Definitions\<close>

subsection \<open>Common types\<close>

type_synonym cint = "32 word"
type_synonym qint64 = "64 word"
type_synonym quint64 = "64 word"
type_synonym byte = "8 word"

text \<open>\<^verbatim>\<open>AkElement::ElementState\<close>.\<close>

datatype ElementState = ElementStateNull | ElementStatePaused | ElementStatePlaying

text \<open>\<^verbatim>\<open>qAbs\<close> on \<^verbatim>\<open>int\<close>: \<^verbatim>\<open>t >= 0 ? t : -t\<close>; the negation wraps, so the most negative
  value is its own absolute value.\<close>

definition qAbs :: "cint \<Rightarrow> cint" where
  "qAbs t = (if 0 \<le>s t then t else - t)"

text \<open>\<^verbatim>\<open>qBound(min, val, max)\<close> on \<^verbatim>\<open>int\<close>, which is \<^verbatim>\<open>qMax(min, qMin(max, val))\<close>.\<close>

definition qMin :: "cint \<Rightarrow> cint \<Rightarrow> cint" where
  "qMin a b = (if a <s b then a else b)"

definition qMax :: "cint \<Rightarrow> cint \<Rightarrow> cint" where
  "qMax a b = (if a <s b then b else a)"

definition qBound :: "cint \<Rightarrow> cint \<Rightarrow> cint \<Rightarrow> cint" where
  "qBound lo val hi = qMax lo (qMin hi val)"

text \<open>Division of two \<^verbatim>\<open>int\<close>s, which truncates towards zero. A zero divisor is a trap in
  C++ and 0 here; the one divisor in this code is the channel count of the negotiated
  output caps.\<close>

definition int_div :: "cint \<Rightarrow> cint \<Rightarrow> cint" where
  "int_div a b = word_of_int (sint a sdiv sint b)"

subsection \<open>AAC encoder: sample rates\<close>

text \<open>The table of \<^verbatim>\<open>nearestSampleRate\<close>, without its terminating 0, which only ends
  the loop.\<close>

definition faacEncSupportedSampleRates :: "cint list" where
  "faacEncSupportedSampleRates =
     [8000, 11025, 12000, 16000, 22050, 24000, 32000, 44100, 48000, 64000, 88200, 96000]"

text \<open>The loop of \<^verbatim>\<open>nearestSampleRate\<close>. The difference \<^verbatim>\<open>*srate - rate\<close> and \<^verbatim>\<open>qAbs\<close>
  are computed in \<^verbatim>\<open>int\<close>; the result is converted to \<^verbatim>\<open>quint64\<close> (sign extension,
  \<^const>\<open>scast\<close>) and compared unsigned with \<open>q\<close>.\<close>

fun nearestSampleRate_loop :: "cint \<Rightarrow> cint list \<Rightarrow> cint \<Rightarrow> quint64 \<Rightarrow> cint" where
  "nearestSampleRate_loop rate [] nearest q = nearest"
| "nearestSampleRate_loop rate (srate # rest) nearest q =
     (let k = (scast (qAbs (srate - rate)) :: quint64)
      in if k < q then nearestSampleRate_loop rate rest srate k
         else nearestSampleRate_loop rate rest nearest q)"

text \<open>\<^verbatim>\<open>nearest\<close> starts as \<^verbatim>\<open>rate\<close> and \<open>q\<close> as the largest \<^verbatim>\<open>quint64\<close>, which is \<open>- 1\<close>
  as a word.\<close>

definition nearestSampleRate :: "cint \<Rightarrow> cint" where
  "nearestSampleRate rate =
     nearestSampleRate_loop rate faacEncSupportedSampleRates rate (- 1)"

text \<open>The absolute distance between two rates, as mathematical integers: the measure the
  claim about \<^const>\<open>nearestSampleRate\<close> speaks of.\<close>

definition rateDistance :: "cint \<Rightarrow> cint \<Rightarrow> int" where
  "rateDistance a b = \<bar>sint a - sint b\<bar>"

text \<open>The table of \<^verbatim>\<open>sampleRateIndex\<close>, without its terminating 0, and the search: the index
  of the first entry equal to \<^verbatim>\<open>rate\<close>, or 15 when there is none.\<close>

definition faacEncSampleRateIndex :: "cint list" where
  "faacEncSampleRateIndex =
     [96000, 88200, 64000, 48000, 44100, 32000, 24000, 22050, 16000, 12000, 11025, 8000, 7350]"

fun sampleRateIndex_loop :: "cint list \<Rightarrow> cint \<Rightarrow> cint \<Rightarrow> cint" where
  "sampleRateIndex_loop [] i rate = 15"
| "sampleRateIndex_loop (r # rest) i rate =
     (if r = rate then i else sampleRateIndex_loop rest (i + 1) rate)"

definition sampleRateIndex :: "cint \<Rightarrow> cint" where
  "sampleRateIndex rate = sampleRateIndex_loop faacEncSampleRateIndex 0 rate"

subsection \<open>AAC encoder: bit packing\<close>

text \<open>A \<^verbatim>\<open>QBitArray\<close> is a list of booleans. \<^verbatim>\<open>putBits\<close> grows the array by \<^verbatim>\<open>bits\<close>
  cleared bits and then writes bit \<open>i\<close> of \<^verbatim>\<open>value\<close> at position \<^verbatim>\<open>size - i - 1\<close>.\<close>

definition putBits :: "bool list \<Rightarrow> nat \<Rightarrow> 32 word \<Rightarrow> bool list" where
  "putBits ba bits val =
     fold (\<lambda>i b. b[length b - i - 1 := bit val i]) [0..<bits] (ba @ replicate bits False)"

text \<open>\<^verbatim>\<open>QBitArray::resize\<close>: truncates, or pads with cleared bits.\<close>

definition resizeBits :: "bool list \<Rightarrow> nat \<Rightarrow> bool list" where
  "resizeBits ba n = take n ba @ replicate (n - length ba) False"

text \<open>\<^verbatim>\<open>bitsToByteArray\<close>: \<^verbatim>\<open>bytes[i / 8] |= (bits[i]? 1: 0) << (7 - (i % 8))\<close> over a
  zeroed array of \<^verbatim>\<open>(size + 7) / 8\<close> bytes.\<close>

definition bitsToByteArray :: "bool list \<Rightarrow> byte list" where
  "bitsToByteArray bits =
     fold (\<lambda>i bytes. bytes[i div 8 :=
              (bytes ! (i div 8)) OR push_bit (7 - i mod 8) (if bits ! i then 1 else 0)])
          [0..<length bits]
          (replicate ((length bits + 7) div 8) 0)"

text \<open>Reading a header blob back, most significant bit first: the bit at position \<open>pos\<close>
  and the number formed by the \<open>len\<close> bits from position \<open>pos\<close>. This is the decoder the
  claims about the header speak of; the encoder does not use it.\<close>

definition headerBit :: "byte list \<Rightarrow> nat \<Rightarrow> bool" where
  "headerBit bytes pos = bit (bytes ! (pos div 8)) (7 - pos mod 8)"

definition headerField :: "byte list \<Rightarrow> nat \<Rightarrow> nat \<Rightarrow> nat" where
  "headerField bytes pos len =
     fold (\<lambda>i acc. 2 * acc + (if headerBit bytes (pos + i) then 1 else 0)) [0..<len] 0"

subsection \<open>AAC encoder: caps and formats\<close>

text \<open>\<^verbatim>\<open>AkAudioCaps::SampleFormat\<close>, host-endian members. The enum is declared in
  \<^verbatim>\<open>akaudiocaps.h\<close>; the encoder distinguishes \<open>s16\<close>, \<open>s32\<close> and \<open>none\<close> from the rest.\<close>

datatype SampleFormat =
    SampleFormat_none | SampleFormat_s8 | SampleFormat_u8 | SampleFormat_s16
  | SampleFormat_u16 | SampleFormat_s32 | SampleFormat_u32 | SampleFormat_s64
  | SampleFormat_u64 | SampleFormat_flt | SampleFormat_dbl

text \<open>The input formats of \<^verbatim>\<open>faac.h\<close>.\<close>

datatype FaacInputFormat =
    FAAC_INPUT_NULL | FAAC_INPUT_16BIT | FAAC_INPUT_24BIT | FAAC_INPUT_32BIT | FAAC_INPUT_FLOAT

text \<open>\<^verbatim>\<open>FaacSampleFormatTable\<close>: the table with its closing \<open>none\<close> entry, and \<^verbatim>\<open>byFormat\<close>,
  which walks it up to that entry. The empty list stands for running past the end of the
  array, which the closing entry prevents.\<close>

definition faacSampleFormatTable :: "(SampleFormat \<times> FaacInputFormat) list" where
  "faacSampleFormatTable =
     [(SampleFormat_s16, FAAC_INPUT_16BIT),
      (SampleFormat_s32, FAAC_INPUT_32BIT),
      (SampleFormat_none, FAAC_INPUT_NULL)]"

fun byFormat_loop ::
  "(SampleFormat \<times> FaacInputFormat) list \<Rightarrow> SampleFormat \<Rightarrow> SampleFormat \<times> FaacInputFormat"
where
  "byFormat_loop [] fmt = (SampleFormat_none, FAAC_INPUT_NULL)"
| "byFormat_loop (e # rest) fmt =
     (if fst e \<noteq> SampleFormat_none
      then (if fst e = fmt then e else byFormat_loop rest fmt)
      else e)"

definition byFormat :: "SampleFormat \<Rightarrow> SampleFormat \<times> FaacInputFormat" where
  "byFormat fmt = byFormat_loop faacSampleFormatTable fmt"

text \<open>\<^verbatim>\<open>AkAudioCaps\<close>. The channel layout is represented by its number of channels, which
  is what \<^verbatim>\<open>channels()\<close> returns; \<^verbatim>\<open>AkAudioCaps::defaultChannelLayout(n)\<close> is the layout with
  \<open>n\<close> channels. The default-constructed value has no format, no channels and rate 0.\<close>

record AkAudioCaps =
  ac_format :: SampleFormat
  ac_channels :: cint
  ac_planar :: bool
  ac_rate :: cint

definition AkAudioCaps_default :: AkAudioCaps where
  "AkAudioCaps_default =
     \<lparr>ac_format = SampleFormat_none, ac_channels = 0, ac_planar = False, ac_rate = 0\<rparr>"

text \<open>Modelled from the spec: \<^verbatim>\<open>AkAudioCaps::operator bool\<close> is defined in
  \<^verbatim>\<open>akaudiocaps.cpp\<close>, outside the sources at hand. The spec (section 3): a caps value is
  valid iff all required fields are non-default, a raw audio caps having a sample format, a
  channel layout and a rate above 0; invalid caps are falsy.\<close>

definition AkAudioCaps_bool :: "AkAudioCaps \<Rightarrow> bool" where
  "AkAudioCaps_bool c \<longleftrightarrow>
     ac_format c \<noteq> SampleFormat_none \<and> 0 <s ac_channels c \<and> 0 <s ac_rate c"

text \<open>\<^verbatim>\<open>AkCompressedAudioCaps::AudioCodecID\<close>. The identifiers are four-character codes
  declared in \<^verbatim>\<open>akcompressedaudiocaps.h\<close>; \<open>unknown\<close> is the zero value, which the codec
  tables use as their end mark. \<open>AudioCodecID_other\<close> stands for the identifiers this code
  never names.\<close>

datatype AudioCodecID =
    AudioCodecID_unknown | AudioCodecID_aac | AudioCodecID_vorbis | AudioCodecID_opus
  | AudioCodecID_other nat

text \<open>\<^verbatim>\<open>AkCompressedAudioCaps\<close>, built from a codec and raw caps; default-constructed, it
  is the empty caps.\<close>

record AkCompressedAudioCaps =
  cac_codec :: AudioCodecID
  cac_rawCaps :: AkAudioCaps

definition AkCompressedAudioCaps_default :: AkCompressedAudioCaps where
  "AkCompressedAudioCaps_default =
     \<lparr>cac_codec = AudioCodecID_unknown, cac_rawCaps = AkAudioCaps_default\<rparr>"

text \<open>Modelled from the spec: \<^verbatim>\<open>AkCompressedAudioCaps::operator bool\<close> is defined in
  \<^verbatim>\<open>akcompressedaudiocaps.cpp\<close>, outside the sources at hand. The spec (section 3):
  compressed caps carry a codec identifier with an "unknown" sentinel and the wrapped raw
  caps, and a caps value is valid iff all required fields are non-default/non-unknown.\<close>

definition AkCompressedAudioCaps_bool :: "AkCompressedAudioCaps \<Rightarrow> bool" where
  "AkCompressedAudioCaps_bool c \<longleftrightarrow>
     cac_codec c \<noteq> AudioCodecID_unknown \<and> AkAudioCaps_bool (cac_rawCaps c)"

text \<open>\<^verbatim>\<open>AkFrac\<close>, a fraction of two 64-bit integers.\<close>

record AkFrac =
  num :: qint64
  den :: qint64

subsection \<open>AAC encoder: the element\<close>

text \<open>The fields of \<^verbatim>\<open>faacEncConfiguration\<close> that \<^verbatim>\<open>init\<close> reads or writes.\<close>

record faacEncConfiguration =
  version :: cint
  aacObjectType :: "32 word"
  mpegVersion :: "32 word"
  useTns :: "32 word"
  allowMidside :: "32 word"
  bitRate :: "64 word"
  bandWidth :: "32 word"
  outputFormat :: "32 word"
  inputFormat :: FaacInputFormat

text \<open>Modelled from the spec: the object type \<^verbatim>\<open>LOW\<close> is a macro of \<^verbatim>\<open>faac.h\<close>, outside the
  sources at hand. The spec (scenario 1) gives its value: object type 2 (LOW).\<close>

definition LOW :: "32 word" where
  "LOW = 2"

text \<open>The packets the encoder consumes and produces, with the attributes this code reads
  or sets. \<open>ap_bool\<close> is the packet's \<^verbatim>\<open>operator bool\<close>.\<close>

record AkAudioPacket =
  ap_bool :: bool
  ap_id :: qint64
  ap_index :: cint
  ap_samples :: "64 word"
  ap_channels :: cint

record AkCompressedAudioPacket =
  cap_caps :: AkCompressedAudioCaps
  cap_size :: "64 word"
  cap_pts :: qint64
  cap_dts :: qint64
  cap_duration :: qint64
  cap_timeBase :: AkFrac
  cap_id :: qint64
  cap_index :: cint

text \<open>The calls the encoder makes into libfaac and into its gap-filling helper element,
  and the signals it emits.\<close>

datatype faac_call =
    faacEncOpen cint cint
  | faacEncGetCurrentConfiguration
  | faacEncSetConfiguration faacEncConfiguration
  | faacEncEncode "64 word" "64 word"
  | faacEncClose
  | fillAudioGaps_setProperty_fillGaps bool
  | fillAudioGaps_setProperty_outputSamples cint
  | fillAudioGaps_setProperty_outputCaps AkAudioCaps
  | fillAudioGaps_setState ElementState

datatype faac_signal =
    headersChanged "byte list"
  | outputCapsChanged AkCompressedAudioCaps
  | encodedTimePtsChanged qint64
  | oStream AkCompressedAudioPacket

text \<open>What the world outside the encoder decides during one call of \<^verbatim>\<open>init\<close> or
  \<^verbatim>\<open>uninit\<close>: the results of the libfaac calls (\<open>None\<close> is a null handle; otherwise the
  input sample count and the maximal output size), the configuration libfaac hands out,
  the version this code was compiled against, the option values, and the frames the
  gap-filling element still delivers, each with the result of its \<^verbatim>\<open>faacEncEncode\<close> call,
  while it is stopped.\<close>

record faac_env =
  faacEncOpen_result :: "(64 word \<times> 64 word) option"
  faacEncGetCurrentConfiguration_result :: faacEncConfiguration
  FAAC_CFG_VERSION :: cint
  faacEncSetConfiguration_result :: bool
  optionValue_mpegVersion :: "32 word"
  optionValue_outputFormat :: "32 word"
  fillAudioGaps_flushed :: "(AkAudioPacket \<times> cint) list"

text \<open>The element: the state, input caps, codec name, bitrate and gap-filling flag of its
  base classes, then the members of \<^verbatim>\<open>AudioEncoderFaacElementPrivate\<close>. \<open>m_encoder\<close> and
  \<open>m_fillAudioGaps\<close> say whether the pointer is non-null. \<open>m_config\<close> points into the open
  encoder; it is read only by \<^verbatim>\<open>updateHeaders\<close>, which \<^verbatim>\<open>init\<close> calls after assigning it.\<close>

record AudioEncoderFaacElement =
  state_aac :: ElementState
  inputCaps_aac :: AkAudioCaps
  codec_aac :: string
  bitrate_aac :: cint
  fillGaps_aac :: bool
  m_outputCaps_aac :: AkCompressedAudioCaps
  m_headers_aac :: "byte list"
  m_encoder_aac :: bool
  m_config :: faacEncConfiguration
  m_maxOutputBytes :: "64 word"
  m_initialized_aac :: bool
  m_paused_aac :: bool
  m_id_aac :: qint64
  m_index_aac :: cint
  m_pts :: qint64
  m_encodedTimePts_aac :: qint64
  m_fillAudioGaps :: bool
  calls_aac :: "faac_call list"
  emitted_aac :: "faac_signal list"

text \<open>\<^verbatim>\<open>AudioEncoderFaacElement::codecID\<close>: the only codec name is \<^verbatim>\<open>"faac"\<close>.\<close>

definition codecID_aac :: "string \<Rightarrow> AudioCodecID" where
  "codecID_aac codec = (if codec = ''faac'' then AudioCodecID_aac else AudioCodecID_unknown)"

text \<open>The element as its constructor leaves it: state \<open>Null\<close>, no input caps, the codec
  \<^verbatim>\<open>"faac"\<close>, every member at its initialiser. Whether the plugin manager could create the
  gap-filling element, and the bitrate and gap-filling defaults of the base class, are
  parameters.\<close>

definition AudioEncoderFaacElement_new :: "bool \<Rightarrow> cint \<Rightarrow> bool \<Rightarrow> AudioEncoderFaacElement" where
  "AudioEncoderFaacElement_new helper bitrate gaps =
     \<lparr>state_aac = ElementStateNull,
      inputCaps_aac = AkAudioCaps_default,
      codec_aac = ''faac'',
      bitrate_aac = bitrate,
      fillGaps_aac = gaps,
      m_outputCaps_aac = AkCompressedAudioCaps_default,
      m_headers_aac = [],
      m_encoder_aac = False,
      m_config = \<lparr>version = 0, aacObjectType = 0, mpegVersion = 0, useTns = 0,
                  allowMidside = 0, bitRate = 0, bandWidth = 0, outputFormat = 0,
                  inputFormat = FAAC_INPUT_NULL\<rparr>,
      m_maxOutputBytes = 0,
      m_initialized_aac = False,
      m_paused_aac = False,
      m_id_aac = 0,
      m_index_aac = 0,
      m_pts = 0,
      m_encodedTimePts_aac = 0,
      m_fillAudioGaps = helper,
      calls_aac = [],
      emitted_aac = []\<rparr>"

text \<open>\<^verbatim>\<open>updateHeaders\<close>: the audio specific configuration, bit by bit, padded to 32 bytes.
  The headers are replaced, and the change is signalled, only when they differ.\<close>

definition audioSpecificConfig :: "AudioEncoderFaacElement \<Rightarrow> bool list" where
  "audioSpecificConfig s =
     (let rate = ac_rate (cac_rawCaps (m_outputCaps_aac s));
          channels = ac_channels (cac_rawCaps (m_outputCaps_aac s));
          a1 = putBits [] 5 (aacObjectType (m_config s));
          sri = sampleRateIndex rate;
          a2 = putBits a1 4 sri;
          a3 = (if 15 \<le>s sri then putBits a2 24 rate else a2);
          a4 = putBits a3 4 channels;
          a5 = putBits a4 1 0;
          a6 = putBits a5 1 0;
          a7 = putBits a6 1 0;
          a8 = putBits a7 11 0x2b7;
          a9 = putBits a8 5 5;
          a10 = putBits a9 1 0
      in resizeBits a10 (32 * 8))"

definition updateHeaders :: "AudioEncoderFaacElement \<Rightarrow> AudioEncoderFaacElement" where
  "updateHeaders s =
     (let headers = bitsToByteArray (audioSpecificConfig s)
      in if m_headers_aac s = headers then s
         else s\<lparr>m_headers_aac := headers,
                emitted_aac := emitted_aac s @ [headersChanged headers]\<rparr>)"

text \<open>\<^verbatim>\<open>updateOutputCaps\<close>, run whenever the input caps change. Both early exits reset the
  output caps to the empty caps unless they are empty already.\<close>

definition resetOutputCaps_aac :: "AudioEncoderFaacElement \<Rightarrow> AudioEncoderFaacElement" where
  "resetOutputCaps_aac s =
     (if \<not> AkCompressedAudioCaps_bool (m_outputCaps_aac s) then s
      else s\<lparr>m_outputCaps_aac := AkCompressedAudioCaps_default,
             emitted_aac := emitted_aac s @ [outputCapsChanged AkCompressedAudioCaps_default]\<rparr>)"

definition updateOutputCaps_aac ::
  "AudioEncoderFaacElement \<Rightarrow> AkAudioCaps \<Rightarrow> AudioEncoderFaacElement"
where
  "updateOutputCaps_aac s inputCaps =
     (if \<not> AkAudioCaps_bool inputCaps then resetOutputCaps_aac s
      else
        let codecID = codecID_aac (codec_aac s)
        in if codecID = AudioCodecID_unknown then resetOutputCaps_aac s
           else
             let eqFormat0 = byFormat (ac_format inputCaps);
                 eqFormat = (if fst eqFormat0 = SampleFormat_none
                             then byFormat SampleFormat_s16 else eqFormat0);
                 channels = qBound 1 (ac_channels inputCaps) 2;
                 rate = nearestSampleRate (ac_rate inputCaps);
                 rawCaps = \<lparr>ac_format = fst eqFormat, ac_channels = channels,
                            ac_planar = False, ac_rate = rate\<rparr>;
                 outputCaps = \<lparr>cac_codec = codecID, cac_rawCaps = rawCaps\<rparr>;
                 s1 = (if m_fillAudioGaps s
                       then s\<lparr>calls_aac :=
                                calls_aac s @ [fillAudioGaps_setProperty_outputCaps rawCaps]\<rparr>
                       else s)
             in if m_outputCaps_aac s1 = outputCaps then s1
                else s1\<lparr>m_outputCaps_aac := outputCaps,
                        emitted_aac := emitted_aac s1 @ [outputCapsChanged outputCaps]\<rparr>)"

text \<open>\<^verbatim>\<open>sendFrame\<close>: the packet carries the running sample count as its time stamp, the
  sample count of the frame as its duration and \<open>1 / rate\<close> as its time base; then the
  running count advances.\<close>

definition sendFrame ::
  "AudioEncoderFaacElement \<Rightarrow> 64 word \<Rightarrow> 64 word \<Rightarrow> AudioEncoderFaacElement"
where
  "sendFrame s samples writtenBytes =
     (let packet = \<lparr>cap_caps = m_outputCaps_aac s,
                     cap_size = writtenBytes,
                     cap_pts = m_pts s,
                     cap_dts = m_pts s,
                     cap_duration = samples,
                     cap_timeBase =
                       \<lparr>num = 1, den = scast (ac_rate (cac_rawCaps (m_outputCaps_aac s)))\<rparr>,
                     cap_id = m_id_aac s,
                     cap_index = m_index_aac s\<rparr>
      in s\<lparr>emitted_aac := emitted_aac s @ [oStream packet],
            m_pts := m_pts s + samples\<rparr>)"

text \<open>\<^verbatim>\<open>encodeFrame\<close>, for a frame and the number of bytes \<^verbatim>\<open>faacEncEncode\<close> returns for it:
  negative is an error, 0 means that the encoder is still buffering.\<close>

definition encodeFrame ::
  "AudioEncoderFaacElement \<Rightarrow> AkAudioPacket \<times> cint \<Rightarrow> AudioEncoderFaacElement"
where
  "encodeFrame s frame =
     (let src = fst frame; writtenBytes = snd frame
      in if \<not> ap_bool src then s
         else
           let s1 = s\<lparr>m_id_aac := ap_id src, m_index_aac := ap_index src\<rparr>;
               s2 = s1\<lparr>calls_aac := calls_aac s1 @
                         [faacEncEncode (ap_samples src * scast (ap_channels src))
                                        (m_maxOutputBytes s1)]\<rparr>
           in if writtenBytes <s 0 then s2
              else
                let s3 = (if 0 <s writtenBytes
                          then sendFrame s2 (ap_samples src) (scast writtenBytes)
                          else s2);
                    t = m_encodedTimePts_aac s3 + ap_samples src
                in s3\<lparr>m_encodedTimePts_aac := t,
                       emitted_aac := emitted_aac s3 @ [encodedTimePtsChanged t]\<rparr>)"

text \<open>\<^verbatim>\<open>uninit\<close>. Stopping the gap-filling element makes it deliver what it still holds,
  and each such frame runs through \<^verbatim>\<open>encodeFrame\<close> before the encoder is closed.\<close>

definition uninit_aac :: "faac_env \<Rightarrow> AudioEncoderFaacElement \<Rightarrow> AudioEncoderFaacElement" where
  "uninit_aac env s =
     (if \<not> m_initialized_aac s then s
      else
        let s1 = s\<lparr>m_initialized_aac := False\<rparr>;
            s2 = (if m_fillAudioGaps s1
                  then fold (\<lambda>frame st. encodeFrame st frame) (fillAudioGaps_flushed env)
                         (s1\<lparr>calls_aac :=
                               calls_aac s1 @ [fillAudioGaps_setState ElementStateNull]\<rparr>)
                  else s1);
            s3 = (if m_encoder_aac s2
                  then s2\<lparr>calls_aac := calls_aac s2 @ [faacEncClose], m_encoder_aac := False\<rparr>
                  else s2)
        in s3\<lparr>m_paused_aac := False\<rparr>)"

text \<open>\<^verbatim>\<open>init\<close>, returning its result and the element afterwards. The three failures after
  \<^verbatim>\<open>faacEncOpen\<close> close the encoder without clearing \<open>m_encoder\<close>, as the source does.\<close>

definition init_aac ::
  "faac_env \<Rightarrow> AudioEncoderFaacElement \<Rightarrow> bool \<times> AudioEncoderFaacElement"
where
  "init_aac env s =
     (let s0 = uninit_aac env s
      in if \<not> AkAudioCaps_bool (inputCaps_aac s0) then (False, s0)
         else
           let rate = ac_rate (cac_rawCaps (m_outputCaps_aac s0));
               channels = ac_channels (cac_rawCaps (m_outputCaps_aac s0));
               s1 = s0\<lparr>calls_aac := calls_aac s0 @ [faacEncOpen rate channels]\<rparr>
           in case faacEncOpen_result env of
                None \<Rightarrow> (False, s1\<lparr>m_encoder_aac := False\<rparr>)
              | Some (inputSamples, maxOutputBytes) \<Rightarrow>
                  let s2 = s1\<lparr>m_encoder_aac := True,
                              m_maxOutputBytes := maxOutputBytes,
                              m_config := faacEncGetCurrentConfiguration_result env,
                              calls_aac := calls_aac s1 @ [faacEncGetCurrentConfiguration]\<rparr>
                  in if version (m_config s2) \<noteq> FAAC_CFG_VERSION env
                     then (False, s2\<lparr>calls_aac := calls_aac s2 @ [faacEncClose]\<rparr>)
                     else
                       let cfg = (m_config s2)
                                   \<lparr>aacObjectType := LOW,
                                    mpegVersion := optionValue_mpegVersion env,
                                    useTns := 0,
                                    allowMidside := 1,
                                    bitRate := scast (int_div (bitrate_aac s2) channels),
                                    bandWidth := 0,
                                    outputFormat := optionValue_outputFormat env,
                                    inputFormat :=
                                      snd (byFormat (ac_format
                                             (cac_rawCaps (m_outputCaps_aac s2))))\<rparr>;
                           s3 = s2\<lparr>m_config := cfg,
                                   calls_aac := calls_aac s2 @ [faacEncSetConfiguration cfg]\<rparr>
                       in if \<not> faacEncSetConfiguration_result env
                          then (False, s3\<lparr>calls_aac := calls_aac s3 @ [faacEncClose]\<rparr>)
                          else
                            let s4 = updateHeaders s3;
                                s5 = (if m_fillAudioGaps s4
                                      then s4\<lparr>calls_aac := calls_aac s4 @
                                             [fillAudioGaps_setProperty_fillGaps (fillGaps_aac s4),
                                              fillAudioGaps_setProperty_outputSamples
                                                (ucast (inputSamples div scast channels)),
                                              fillAudioGaps_setState ElementStatePlaying]\<rparr>
                                      else s4)
                            in (True, s5\<lparr>m_pts := 0,
                                         m_encodedTimePts_aac := 0,
                                         m_initialized_aac := True\<rparr>))"

text \<open>Modelled from the spec: \<^verbatim>\<open>AkElement::setState\<close>, the base class method every branch
  of an element's \<^verbatim>\<open>setState\<close> ends in, is defined in \<^verbatim>\<open>akelement.cpp\<close>, outside the sources
  at hand. The spec (section 4.1): a supported transition puts the element into the target
  state and reports success. Every call below passes a target that differs from the
  current state.\<close>

definition AkElement_setState_aac ::
  "AudioEncoderFaacElement \<Rightarrow> ElementState \<Rightarrow> bool \<times> AudioEncoderFaacElement"
where
  "AkElement_setState_aac s st = (True, s\<lparr>state_aac := st\<rparr>)"

text \<open>\<^verbatim>\<open>AudioEncoderFaacElement::setState\<close>. From \<open>Null\<close>, the case \<open>Paused\<close> sets \<open>m_paused\<close>
  and falls through into the case \<open>Playing\<close>, which is \<open>start_aac\<close>. Every pair of states
  without a case of its own leaves both \<^verbatim>\<open>switch\<close> statements and reaches the final
  \<^verbatim>\<open>return false\<close>.\<close>

definition start_aac ::
  "faac_env \<Rightarrow> AudioEncoderFaacElement \<Rightarrow> ElementState \<Rightarrow> bool \<times> AudioEncoderFaacElement"
where
  "start_aac env s st =
     (case init_aac env s of
        (False, s1) \<Rightarrow> (False, s1\<lparr>m_paused_aac := False\<rparr>)
      | (True, s1) \<Rightarrow> AkElement_setState_aac s1 st)"

fun setState_aac ::
  "faac_env \<Rightarrow> AudioEncoderFaacElement \<Rightarrow> ElementState \<Rightarrow> bool \<times> AudioEncoderFaacElement"
where
  "setState_aac env s st =
     (case state_aac s of
        ElementStateNull \<Rightarrow>
          (case st of
             ElementStatePaused \<Rightarrow>
               start_aac env (s\<lparr>m_paused_aac := (st = ElementStatePaused)\<rparr>) st
           | ElementStatePlaying \<Rightarrow> start_aac env s st
           | ElementStateNull \<Rightarrow> (False, s))
      | ElementStatePaused \<Rightarrow>
          (case st of
             ElementStateNull \<Rightarrow> AkElement_setState_aac (uninit_aac env s) st
           | ElementStatePlaying \<Rightarrow> AkElement_setState_aac (s\<lparr>m_paused_aac := False\<rparr>) st
           | ElementStatePaused \<Rightarrow> (False, s))
      | ElementStatePlaying \<Rightarrow>
          (case st of
             ElementStateNull \<Rightarrow> AkElement_setState_aac (uninit_aac env s) st
           | ElementStatePaused \<Rightarrow> AkElement_setState_aac (s\<lparr>m_paused_aac := True\<rparr>) st
           | ElementStatePlaying \<Rightarrow> (False, s)))"

subsection \<open>AV1 encoder: output caps\<close>

text \<open>\<^verbatim>\<open>AkVideoCaps::PixelFormat\<close>: the twelve formats of the encoder's table, \<open>none\<close>, and
  some of the many formats of \<^verbatim>\<open>akvideocaps.h\<close> that the table does not have.\<close>

datatype PixelFormat =
    Format_none
  | Format_y8 | Format_y10 | Format_y12
  | Format_yuv420p | Format_yuv420p10 | Format_yuv420p12
  | Format_yuv422p | Format_yuv422p10 | Format_yuv422p12
  | Format_yuv444p | Format_yuv444p10 | Format_yuv444p12
  | Format_rgb24 | Format_argb | Format_yuyv422 | Format_nv12 | Format_yuv411p

text \<open>\<^verbatim>\<open>RaChromaSampling\<close> of \<^verbatim>\<open>rav1e.h\<close>; the closing entry of the table holds
  \<^verbatim>\<open>RaChromaSampling(-1)\<close>.\<close>

datatype RaChromaSampling =
    RA_CHROMA_SAMPLING_CS400 | RA_CHROMA_SAMPLING_CS420 | RA_CHROMA_SAMPLING_CS422
  | RA_CHROMA_SAMPLING_CS444 | RaChromaSampling_minus_1

text \<open>\<^verbatim>\<open>Av1PixFormatTable\<close> with its closing entry, and \<^verbatim>\<open>byPixFormat\<close>.\<close>

definition rav1ePixFormatTable :: "(PixelFormat \<times> RaChromaSampling \<times> nat) list" where
  "rav1ePixFormatTable =
     [(Format_y8, RA_CHROMA_SAMPLING_CS400, 8),
      (Format_y10, RA_CHROMA_SAMPLING_CS400, 10),
      (Format_y12, RA_CHROMA_SAMPLING_CS400, 12),
      (Format_yuv420p, RA_CHROMA_SAMPLING_CS420, 8),
      (Format_yuv420p10, RA_CHROMA_SAMPLING_CS420, 10),
      (Format_yuv420p12, RA_CHROMA_SAMPLING_CS420, 12),
      (Format_yuv422p, RA_CHROMA_SAMPLING_CS422, 8),
      (Format_yuv422p10, RA_CHROMA_SAMPLING_CS422, 10),
      (Format_yuv422p12, RA_CHROMA_SAMPLING_CS422, 12),
      (Format_yuv444p, RA_CHROMA_SAMPLING_CS444, 8),
      (Format_yuv444p10, RA_CHROMA_SAMPLING_CS444, 10),
      (Format_yuv444p12, RA_CHROMA_SAMPLING_CS444, 12),
      (Format_none, RaChromaSampling_minus_1, 0)]"

fun byPixFormat_loop ::
  "(PixelFormat \<times> RaChromaSampling \<times> nat) list \<Rightarrow> PixelFormat
     \<Rightarrow> PixelFormat \<times> RaChromaSampling \<times> nat"
where
  "byPixFormat_loop [] fmt = (Format_none, RaChromaSampling_minus_1, 0)"
| "byPixFormat_loop (e # rest) fmt =
     (if fst e \<noteq> Format_none
      then (if fst e = fmt then e else byPixFormat_loop rest fmt)
      else e)"

definition byPixFormat :: "PixelFormat \<Rightarrow> PixelFormat \<times> RaChromaSampling \<times> nat" where
  "byPixFormat fmt = byPixFormat_loop rav1ePixFormatTable fmt"

text \<open>Modelled from the spec: \<^verbatim>\<open>AkFrac::operator bool\<close> is defined in \<^verbatim>\<open>akfrac.cpp\<close>,
  outside the sources at hand. The spec (section 3): a frame rate is a rational with
  numerator and denominator and may be zero, meaning unknown.\<close>

definition AkFrac_bool :: "AkFrac \<Rightarrow> bool" where
  "AkFrac_bool f \<longleftrightarrow> num f \<noteq> 0 \<and> den f \<noteq> 0"

text \<open>\<^verbatim>\<open>AkVideoCaps\<close> and its default-constructed value.\<close>

record AkVideoCaps =
  vc_format :: PixelFormat
  vc_width :: cint
  vc_height :: cint
  vc_fps :: AkFrac

definition AkVideoCaps_default :: AkVideoCaps where
  "AkVideoCaps_default =
     \<lparr>vc_format = Format_none, vc_width = 0, vc_height = 0, vc_fps = \<lparr>num = 0, den = 0\<rparr>\<rparr>"

text \<open>Modelled from the spec: \<^verbatim>\<open>AkVideoCaps::operator bool\<close> is defined in
  \<^verbatim>\<open>akvideocaps.cpp\<close>, outside the sources at hand. The spec (section 3): raw video caps
  have a pixel format and a width and height above 0, the frame rate may be zero; a caps
  value is valid iff all required fields are non-default.\<close>

definition AkVideoCaps_bool :: "AkVideoCaps \<Rightarrow> bool" where
  "AkVideoCaps_bool c \<longleftrightarrow>
     vc_format c \<noteq> Format_none \<and> 0 <s vc_width c \<and> 0 <s vc_height c"

text \<open>\<^verbatim>\<open>AkCompressedVideoCaps::VideoCodecID\<close>, with \<open>unknown\<close> as the zero value and
  \<open>VideoCodecID_other\<close> for the identifiers this code never names.\<close>

datatype VideoCodecID =
    VideoCodecID_unknown | VideoCodecID_vp8 | VideoCodecID_vp9 | VideoCodecID_av1
  | VideoCodecID_other nat

record AkCompressedVideoCaps =
  cvc_codec :: VideoCodecID
  cvc_rawCaps :: AkVideoCaps
  cvc_bitrate :: cint

definition AkCompressedVideoCaps_default :: AkCompressedVideoCaps where
  "AkCompressedVideoCaps_default =
     \<lparr>cvc_codec = VideoCodecID_unknown, cvc_rawCaps = AkVideoCaps_default, cvc_bitrate = 0\<rparr>"

text \<open>Modelled from the spec: \<^verbatim>\<open>AkCompressedVideoCaps::operator bool\<close> is defined in
  \<^verbatim>\<open>akcompressedvideocaps.cpp\<close>, outside the sources at hand. The spec (section 3), as for
  compressed audio caps: valid iff the codec is not the "unknown" sentinel and the wrapped
  raw caps are valid.\<close>

definition AkCompressedVideoCaps_bool :: "AkCompressedVideoCaps \<Rightarrow> bool" where
  "AkCompressedVideoCaps_bool c \<longleftrightarrow>
     cvc_codec c \<noteq> VideoCodecID_unknown \<and> AkVideoCaps_bool (cvc_rawCaps c)"

text \<open>The part of the AV1 encoder element that caps negotiation reads and writes: codec
  name and bitrate of the base class, the output caps of the video converter (set with
  \<^verbatim>\<open>setOutputCaps\<close>, read with \<^verbatim>\<open>outputCaps\<close>), the element's output caps, and the
  \<^verbatim>\<open>outputCapsChanged\<close> signals it emitted.\<close>

record VideoEncoderRav1eElement =
  codec_av1 :: string
  bitrate_av1 :: cint
  m_videoConverter_outputCaps :: AkVideoCaps
  m_outputCaps_av1 :: AkCompressedVideoCaps
  emitted_av1 :: "AkCompressedVideoCaps list"

text \<open>The element as its constructor leaves it, for the bitrate default of the base
  class: the codec is \<^verbatim>\<open>"rav1e"\<close>, the caps are empty.\<close>

definition VideoEncoderRav1eElement_new :: "cint \<Rightarrow> VideoEncoderRav1eElement" where
  "VideoEncoderRav1eElement_new bitrate =
     \<lparr>codec_av1 = ''rav1e'',
      bitrate_av1 = bitrate,
      m_videoConverter_outputCaps = AkVideoCaps_default,
      m_outputCaps_av1 = AkCompressedVideoCaps_default,
      emitted_av1 = []\<rparr>"

definition codecID_av1 :: "string \<Rightarrow> VideoCodecID" where
  "codecID_av1 codec = (if codec = ''rav1e'' then VideoCodecID_av1 else VideoCodecID_unknown)"

definition resetOutputCaps_av1 :: "VideoEncoderRav1eElement \<Rightarrow> VideoEncoderRav1eElement" where
  "resetOutputCaps_av1 s =
     (if \<not> AkCompressedVideoCaps_bool (m_outputCaps_av1 s) then s
      else s\<lparr>m_outputCaps_av1 := AkCompressedVideoCaps_default,
             emitted_av1 := emitted_av1 s @ [AkCompressedVideoCaps_default]\<rparr>)"

text \<open>\<^verbatim>\<open>VideoEncoderRav1eElementPrivate::updateOutputCaps\<close>.\<close>

definition updateOutputCaps_av1 ::
  "VideoEncoderRav1eElement \<Rightarrow> AkVideoCaps \<Rightarrow> VideoEncoderRav1eElement"
where
  "updateOutputCaps_av1 s inputCaps =
     (if \<not> AkVideoCaps_bool inputCaps then resetOutputCaps_av1 s
      else
        let codecID = codecID_av1 (codec_av1 s)
        in if codecID = VideoCodecID_unknown then resetOutputCaps_av1 s
           else
             let eqFormat0 = byPixFormat (vc_format inputCaps);
                 eqFormat = (if fst eqFormat0 = Format_none
                             then byPixFormat Format_yuv420p else eqFormat0);
                 fps0 = vc_fps inputCaps;
                 fps = (if \<not> AkFrac_bool fps0 then \<lparr>num = 30, den = 1\<rparr> else fps0);
                 s1 = s\<lparr>m_videoConverter_outputCaps :=
                          \<lparr>vc_format = fst eqFormat,
                           vc_width = vc_width inputCaps,
                           vc_height = vc_height inputCaps,
                           vc_fps = fps\<rparr>\<rparr>;
                 outputCaps = \<lparr>cvc_codec = codecID,
                               cvc_rawCaps = m_videoConverter_outputCaps s1,
                               cvc_bitrate = bitrate_av1 s1\<rparr>
             in if m_outputCaps_av1 s1 = outputCaps then s1
                else s1\<lparr>m_outputCaps_av1 := outputCaps,
                        emitted_av1 := emitted_av1 s1 @ [outputCaps]\<rparr>)"

subsection \<open>WebM muxer: data\<close>

text \<open>The codec tables of the muxer, each with its closing \<open>unknown\<close> entry, and
  \<^verbatim>\<open>byCodecID\<close>, whose loop runs while the entry's codec id is not zero. The strings are
  the codec names of libwebm.\<close>

definition webmAudioCodecsTable :: "(AudioCodecID \<times> string) list" where
  "webmAudioCodecsTable =
     [(AudioCodecID_vorbis, ''A_VORBIS''),
      (AudioCodecID_opus, ''A_OPUS''),
      (AudioCodecID_unknown, [])]"

definition webmVideoCodecsTable :: "(VideoCodecID \<times> string) list" where
  "webmVideoCodecsTable =
     [(VideoCodecID_vp8, ''V_VP8''),
      (VideoCodecID_vp9, ''V_VP9''),
      (VideoCodecID_av1, ''V_AV1''),
      (VideoCodecID_unknown, [])]"

fun AudioCodecsTable_loop ::
  "(AudioCodecID \<times> string) list \<Rightarrow> AudioCodecID \<Rightarrow> AudioCodecID \<times> string"
where
  "AudioCodecsTable_loop [] codecID = (AudioCodecID_unknown, [])"
| "AudioCodecsTable_loop (item # rest) codecID =
     (if fst item \<noteq> AudioCodecID_unknown
      then (if fst item = codecID then item else AudioCodecsTable_loop rest codecID)
      else item)"

definition AudioCodecsTable_byCodecID :: "AudioCodecID \<Rightarrow> AudioCodecID \<times> string" where
  "AudioCodecsTable_byCodecID codecID = AudioCodecsTable_loop webmAudioCodecsTable codecID"

fun VideoCodecsTable_loop ::
  "(VideoCodecID \<times> string) list \<Rightarrow> VideoCodecID \<Rightarrow> VideoCodecID \<times> string"
where
  "VideoCodecsTable_loop [] codecID = (VideoCodecID_unknown, [])"
| "VideoCodecsTable_loop (item # rest) codecID =
     (if fst item \<noteq> VideoCodecID_unknown
      then (if fst item = codecID then item else VideoCodecsTable_loop rest codecID)
      else item)"

definition VideoCodecsTable_byCodecID :: "VideoCodecID \<Rightarrow> VideoCodecID \<times> string" where
  "VideoCodecsTable_byCodecID codecID = VideoCodecsTable_loop webmVideoCodecsTable codecID"

text \<open>\<^verbatim>\<open>AkPacket\<close> with the attributes \<^verbatim>\<open>packetReady\<close> reads. \<open>pk_keyFrame\<close> says whether
  the flags of a compressed video packet contain \<^verbatim>\<open>VideoPacketTypeFlag_KeyFrame\<close>.\<close>

datatype PacketType =
    PacketUnknown | PacketAudio | PacketAudioCompressed | PacketVideo | PacketVideoCompressed
  | PacketSubtitle | PacketSubtitleCompressed

record AkPacket =
  pk_type :: PacketType
  pk_data :: "byte list"
  pk_pts :: qint64
  pk_duration :: qint64
  pk_timeBase :: AkFrac
  pk_keyFrame :: bool

text \<open>The muxer computes durations and time stamps in \<^verbatim>\<open>qreal\<close>, an IEEE double. The
  embedding does not interpret double arithmetic: the type \<open>'q\<close> of doubles and the
  operations on it that this code uses are parameters. They are the conversions from
  \<^verbatim>\<open>qint64\<close>, \<^verbatim>\<open>uint64_t\<close> and \<^verbatim>\<open>int\<close>, product, quotient, comparison, the conversion
  \<^verbatim>\<open>uint64_t(x)\<close>, \<^verbatim>\<open>qRound64\<close>, the constants \<^verbatim>\<open>1e9\<close> and \<^verbatim>\<open>0.0\<close>, and \<^verbatim>\<open>AkFrac::value\<close>,
  the double nearest to a fraction.\<close>

record 'q qreal_ops =
  q_of_qint64 :: "qint64 \<Rightarrow> 'q"
  q_of_uint64 :: "64 word \<Rightarrow> 'q"
  q_of_int :: "cint \<Rightarrow> 'q"
  q_mul :: "'q \<Rightarrow> 'q \<Rightarrow> 'q"
  q_div :: "'q \<Rightarrow> 'q \<Rightarrow> 'q"
  q_less :: "'q \<Rightarrow> 'q \<Rightarrow> bool"
  q_to_uint64 :: "'q \<Rightarrow> 64 word"
  qRound64 :: "'q \<Rightarrow> qint64"
  q_1e9 :: 'q
  q_zero :: 'q
  AkFrac_value :: "AkFrac \<Rightarrow> 'q"

text \<open>\<^verbatim>\<open>qMax\<close> on doubles.\<close>

definition qMax_qreal :: "'q qreal_ops \<Rightarrow> 'q \<Rightarrow> 'q \<Rightarrow> 'q" where
  "qMax_qreal ops a b = (if q_less ops a b then b else a)"

text \<open>Modelled from the spec: \<^verbatim>\<open>AkAudioCaps::bps\<close>, the bits per sample of a format, is
  defined in \<^verbatim>\<open>akaudiocaps.cpp\<close>, outside the sources at hand. The spec (section 3) names
  the formats by their width: integers of 8, 16 and 32 bits, floats of 32 and 64 bits.\<close>

definition bps :: "SampleFormat \<Rightarrow> cint" where
  "bps fmt =
     (case fmt of
        SampleFormat_none \<Rightarrow> 0
      | SampleFormat_s8 \<Rightarrow> 8 | SampleFormat_u8 \<Rightarrow> 8
      | SampleFormat_s16 \<Rightarrow> 16 | SampleFormat_u16 \<Rightarrow> 16
      | SampleFormat_s32 \<Rightarrow> 32 | SampleFormat_u32 \<Rightarrow> 32
      | SampleFormat_s64 \<Rightarrow> 64 | SampleFormat_u64 \<Rightarrow> 64
      | SampleFormat_flt \<Rightarrow> 32 | SampleFormat_dbl \<Rightarrow> 64)"

text \<open>The calls the muxer makes: into its packet synchronizer, into the libwebm writer,
  segment, segment info and tracks (a track is named by its number), into the libwebm
  reader, and into the file system. \<open>segment_set_mode True\<close> is \<^verbatim>\<open>kLive\<close>.
  \<open>segment_AddFrame\<close> carries data, size, track number, time stamp in nanoseconds and the
  key frame flag.\<close>

datatype 'q webm_call =
    packetSync_setProperty_audioEnabled bool
  | packetSync_setProperty_discardLast bool
  | packetSync_setState ElementState
  | writer_Open string
  | writer_Close
  | QFile_remove string
  | QFile_rename string string
  | QTemporaryDir_create
  | reader_Open string
  | reader_Close
  | segment_Init
  | segment_AccurateClusterDuration bool
  | segment_UseFixedSizeClusterTimecode bool
  | segment_set_mode bool
  | segment_set_max_cluster_duration "64 word"
  | segment_set_max_cluster_size "64 word"
  | segment_OutputCues bool
  | info_set_timecode_scale "64 word"
  | info_set_muxing_app string
  | info_set_writing_app string
  | segment_AddVideoTrack cint cint
  | segment_AddAudioTrack cint cint
  | segment_GetTrackByNumber "64 word"
  | track_set_name "64 word" string
  | track_set_language "64 word" string
  | track_set_codec_id "64 word" string
  | videoTrack_set_width cint
  | videoTrack_set_height cint
  | videoTrack_set_frame_rate 'q
  | audioTrack_set_bit_depth cint
  | audioTrack_set_channels cint
  | audioTrack_set_sample_rate cint
  | track_SetCodecPrivate "64 word" "byte list"
  | segment_AddFrame "byte list" "64 word" "64 word" "64 word" bool
  | segment_set_duration qint64
  | segment_Finalize
  | segment_CopyAndMoveCuesBeforeClusters

text \<open>What the world outside the muxer decides during one call of \<^verbatim>\<open>init\<close> or \<^verbatim>\<open>uninit\<close>:
  the results of the libwebm calls (for a track lookup, whether the pointer is non-null;
  \<open>reader_Open_result\<close> is true when \<^verbatim>\<open>MkvReader::Open\<close> returns nonzero, its failure),
  the application name, whether the temporary directory is valid and the path of the
  temporary file in it, and the packets the synchronizer still delivers while it is
  stopped. The results of \<^verbatim>\<open>AddFrame\<close> and \<^verbatim>\<open>Finalize\<close> are only logged and have no
  field.\<close>

record webm_env =
  writer_Open_result :: bool
  segment_Init_result :: bool
  segment_AddVideoTrack_result :: "64 word"
  GetTrackByNumber_video_result :: bool
  segment_AddAudioTrack_result :: "64 word"
  GetTrackByNumber_audio_result :: bool
  GetTrackByNumber_audio_result2 :: bool
  applicationName :: string
  packetSync_flushed :: "AkPacket list"
  reader_Open_result :: bool
  tempDir_isValid :: bool
  tempDir_filePath :: string
  writer_Open_tmp_result :: bool
  CopyAndMoveCuesBeforeClusters_result :: bool

text \<open>The muxer element: the state, location, stream caps, stream headers and stream
  durations of its base classes, which the host sets, then the members of
  \<^verbatim>\<open>VideoMuxerWebmElementPrivate\<close>. \<open>m_packetSync\<close> says whether the pointer is non-null.\<close>

record 'q VideoMuxerWebmElement =
  state_webm :: ElementState
  location :: string
  streamCaps_Video :: AkCompressedVideoCaps
  streamCaps_Audio :: AkCompressedAudioCaps
  streamHeaders_Video :: "byte list"
  streamHeaders_Audio :: "byte list"
  streamDuration_Video :: qint64
  streamDuration_Audio :: qint64
  m_audioTrackIndex :: "64 word"
  m_videoTrackIndex :: "64 word"
  m_accurateClusterDuration :: bool
  m_fixedSizeClusterTimecode :: bool
  m_liveMode :: bool
  m_outputCues :: bool
  m_maxClusterSize :: "64 word"
  m_outputCuesBlockNumber :: bool
  m_cuesBeforeClusters :: bool
  m_maxClusterDuration :: "64 word"
  m_timeCodeScale :: "64 word"
  m_audioDuration :: 'q
  m_videoDuration :: 'q
  m_initialized :: bool
  m_paused :: bool
  m_packetSync :: bool
  calls :: "'q webm_call list"

subsection \<open>WebM muxer: operations\<close>

text \<open>The element as its constructor leaves it: state \<open>Null\<close>, no location, caps or
  headers, every member at its initialiser. Whether the plugin manager could create the
  packet synchronizer is a parameter.\<close>

definition VideoMuxerWebmElement_new :: "'q qreal_ops \<Rightarrow> bool \<Rightarrow> 'q VideoMuxerWebmElement" where
  "VideoMuxerWebmElement_new ops helper =
     \<lparr>state_webm = ElementStateNull,
      location = [],
      streamCaps_Video = AkCompressedVideoCaps_default,
      streamCaps_Audio = AkCompressedAudioCaps_default,
      streamHeaders_Video = [],
      streamHeaders_Audio = [],
      streamDuration_Video = 0,
      streamDuration_Audio = 0,
      m_audioTrackIndex = 0,
      m_videoTrackIndex = 0,
      m_accurateClusterDuration = False,
      m_fixedSizeClusterTimecode = False,
      m_liveMode = True,
      m_outputCues = True,
      m_maxClusterSize = 0,
      m_outputCuesBlockNumber = True,
      m_cuesBeforeClusters = False,
      m_maxClusterDuration = 0,
      m_timeCodeScale = 100000,
      m_audioDuration = q_zero ops,
      m_videoDuration = q_zero ops,
      m_initialized = False,
      m_paused = False,
      m_packetSync = helper,
      calls = []\<rparr>"

text \<open>Recording calls.\<close>

definition call :: "'q webm_call list \<Rightarrow> 'q VideoMuxerWebmElement \<Rightarrow> 'q VideoMuxerWebmElement" where
  "call cs s = s\<lparr>calls := calls s @ cs\<rparr>"

text \<open>\<^verbatim>\<open>packetReady\<close>. The time stamp handed to \<^verbatim>\<open>AddFrame\<close> is
  \<^verbatim>\<open>uint64_t(pts * timeBase.value() * 1e9)\<close>; the duration of the packet's stream becomes
  \<^verbatim>\<open>(pts + duration) * timeBase.value()\<close>, the sum being taken in \<^verbatim>\<open>qint64\<close>.\<close>

definition frameTimestamp :: "'q qreal_ops \<Rightarrow> AkPacket \<Rightarrow> 64 word" where
  "frameTimestamp ops packet =
     q_to_uint64 ops
       (q_mul ops
          (q_mul ops (q_of_qint64 ops (pk_pts packet)) (AkFrac_value ops (pk_timeBase packet)))
          (q_1e9 ops))"

definition isAudio :: "AkPacket \<Rightarrow> bool" where
  "isAudio packet \<longleftrightarrow>
     pk_type packet = PacketAudio \<or> pk_type packet = PacketAudioCompressed"

definition packetReady ::
  "'q qreal_ops \<Rightarrow> 'q VideoMuxerWebmElement \<Rightarrow> AkPacket \<Rightarrow> 'q VideoMuxerWebmElement"
where
  "packetReady ops s packet =
     (let track = (if isAudio packet then m_audioTrackIndex s else m_videoTrackIndex s);
          isKey = (if pk_type packet = PacketVideoCompressed then pk_keyFrame packet else True);
          s1 = call [segment_AddFrame (pk_data packet) (of_nat (length (pk_data packet)))
                       track (frameTimestamp ops packet) isKey] s;
          streamDuration =
            q_mul ops (q_of_qint64 ops (pk_pts packet + pk_duration packet))
                      (AkFrac_value ops (pk_timeBase packet))
      in if isAudio packet then s1\<lparr>m_audioDuration := streamDuration\<rparr>
         else s1\<lparr>m_videoDuration := streamDuration\<rparr>)"

text \<open>The durations \<^verbatim>\<open>uninit\<close> computes: for each stream the duration the host reports,
  converted to seconds, when that is above 0, and the running duration otherwise; the
  video duration alone when there is no audio track, the larger of the two otherwise; and
  the segment duration in units of the time code scale.\<close>

definition audioDuration_webm :: "'q qreal_ops \<Rightarrow> 'q VideoMuxerWebmElement \<Rightarrow> 'q" where
  "audioDuration_webm ops s =
     (if 0 <s streamDuration_Audio s
      then q_div ops (q_of_qint64 ops (streamDuration_Audio s))
                     (q_of_int ops (ac_rate (cac_rawCaps (streamCaps_Audio s))))
      else m_audioDuration s)"

definition videoDuration_webm :: "'q qreal_ops \<Rightarrow> 'q VideoMuxerWebmElement \<Rightarrow> 'q" where
  "videoDuration_webm ops s =
     (if 0 <s streamDuration_Video s
      then q_div ops (q_of_qint64 ops (streamDuration_Video s))
                     (AkFrac_value ops (vc_fps (cvc_rawCaps (streamCaps_Video s))))
      else m_videoDuration s)"

definition duration_webm :: "'q qreal_ops \<Rightarrow> 'q VideoMuxerWebmElement \<Rightarrow> 'q" where
  "duration_webm ops s =
     (if m_audioTrackIndex s < 1 then videoDuration_webm ops s
      else qMax_qreal ops (audioDuration_webm ops s) (videoDuration_webm ops s))"

definition segmentDuration :: "'q qreal_ops \<Rightarrow> 'q VideoMuxerWebmElement \<Rightarrow> 'q \<Rightarrow> qint64" where
  "segmentDuration ops s d =
     qRound64 ops (q_div ops (q_mul ops d (q_1e9 ops)) (q_of_uint64 ops (m_timeCodeScale s)))"

text \<open>The first part of \<^verbatim>\<open>uninit\<close>: the element is marked as not initialized, the
  synchronizer is stopped, and the packets it delivers while stopping are written.\<close>

definition stopPacketSync ::
  "'q qreal_ops \<Rightarrow> webm_env \<Rightarrow> 'q VideoMuxerWebmElement \<Rightarrow> 'q VideoMuxerWebmElement"
where
  "stopPacketSync ops env s =
     fold (\<lambda>packet st. packetReady ops st packet) (packetSync_flushed env)
       (call [packetSync_setState ElementStateNull] (s\<lparr>m_initialized := False\<rparr>))"

text \<open>The last part of \<^verbatim>\<open>uninit\<close>, taken when \<open>m_cuesBeforeClusters\<close> is set: the file is
  copied with the cues moved. The two early \<^verbatim>\<open>return\<close>s leave \<open>m_paused\<close> as it is.\<close>

definition moveCuesBeforeClusters ::
  "webm_env \<Rightarrow> 'q VideoMuxerWebmElement \<Rightarrow> 'q VideoMuxerWebmElement"
where
  "moveCuesBeforeClusters env s =
     (let s1 = call [reader_Open (location s)] s
      in if reader_Open_result env then s1
         else
           let s2 = call [QTemporaryDir_create] s1
           in if \<not> tempDir_isValid env then s2
              else
                let tmp = tempDir_filePath env;
                    s3 = call [QFile_remove tmp, writer_Open tmp] s2;
                    s4 = (if writer_Open_tmp_result env
                          then (if CopyAndMoveCuesBeforeClusters_result env
                                then call [segment_CopyAndMoveCuesBeforeClusters, reader_Close,
                                           writer_Close, QFile_remove (location s3),
                                           QFile_rename tmp (location s3)] s3
                                else call [segment_CopyAndMoveCuesBeforeClusters, reader_Close,
                                           writer_Close, QFile_remove tmp] s3)
                          else call [reader_Close, writer_Close, QFile_remove tmp] s3)
                in s4\<lparr>m_paused := False\<rparr>)"

text \<open>\<^verbatim>\<open>VideoMuxerWebmElementPrivate::uninit\<close>.\<close>

definition uninit_webm ::
  "'q qreal_ops \<Rightarrow> webm_env \<Rightarrow> 'q VideoMuxerWebmElement \<Rightarrow> 'q VideoMuxerWebmElement"
where
  "uninit_webm ops env s =
     (if \<not> m_initialized s then s
      else
        let s1 = stopPacketSync ops env s;
            s2 = call [segment_set_duration (segmentDuration ops s1 (duration_webm ops s1)),
                       segment_Finalize,
                       writer_Close] s1
        in if m_cuesBeforeClusters s2 then moveCuesBeforeClusters env s2
           else s2\<lparr>m_paused := False\<rparr>)"

text \<open>\<^verbatim>\<open>VideoMuxerWebmElementPrivate::init\<close>, in the sections of the source. A failure after
  the file was opened closes the writer and removes the file.\<close>

definition fail_init ::
  "string \<Rightarrow> 'q VideoMuxerWebmElement \<Rightarrow> bool \<times> 'q VideoMuxerWebmElement"
where
  "fail_init loc s = (False, call [writer_Close, QFile_remove loc] s)"

text \<open>Write the codec headers, start the synchronizer.\<close>

definition init_headers ::
  "webm_env \<Rightarrow> 'q VideoMuxerWebmElement \<Rightarrow> bool \<times> 'q VideoMuxerWebmElement"
where
  "init_headers env s =
     (let videoHeaders = streamHeaders_Video s;
          audioCaps = streamCaps_Audio s;
          s1 = (if videoHeaders \<noteq> []
                then call [track_SetCodecPrivate (m_videoTrackIndex s) videoHeaders] s
                else s);
          s2 = (if AkCompressedAudioCaps_bool audioCaps
                then
                  let audioHeaders = streamHeaders_Audio s1
                  in if audioHeaders \<noteq> []
                     then
                       let s' = call [segment_GetTrackByNumber (m_audioTrackIndex s1)] s1
                       in if GetTrackByNumber_audio_result2 env
                          then call [track_SetCodecPrivate (m_audioTrackIndex s') audioHeaders] s'
                          else s'
                     else s1
                else s1);
          s3 = call [packetSync_setProperty_audioEnabled (AkCompressedAudioCaps_bool audioCaps),
                     packetSync_setProperty_discardLast False,
                     packetSync_setState ElementStatePlaying] s2
      in (True, s3\<lparr>m_initialized := True\<rparr>))"

text \<open>Add the audio track to the muxer, when there are audio caps.\<close>

definition init_audioTrack ::
  "webm_env \<Rightarrow> string \<Rightarrow> 'q VideoMuxerWebmElement \<Rightarrow> bool \<times> 'q VideoMuxerWebmElement"
where
  "init_audioTrack env acodec_str s =
     (let audioCaps = streamCaps_Audio s; loc = location s
      in if AkCompressedAudioCaps_bool audioCaps
         then
           let s1 = (call [segment_AddAudioTrack (ac_rate (cac_rawCaps audioCaps))
                                                 (ac_channels (cac_rawCaps audioCaps))] s)
                      \<lparr>m_audioTrackIndex := segment_AddAudioTrack_result env\<rparr>
           in if m_audioTrackIndex s1 < 1 then fail_init loc s1
              else
                let s2 = call [segment_GetTrackByNumber (m_audioTrackIndex s1)] s1
                in if \<not> GetTrackByNumber_audio_result env then fail_init loc s2
                   else
                     let t = m_audioTrackIndex s2
                     in init_headers env
                          (call [track_set_name t ''Audio'',
                                 track_set_language t ''und'',
                                 track_set_codec_id t acodec_str,
                                 audioTrack_set_bit_depth (bps (ac_format (cac_rawCaps audioCaps))),
                                 audioTrack_set_channels (ac_channels (cac_rawCaps audioCaps)),
                                 audioTrack_set_sample_rate (ac_rate (cac_rawCaps audioCaps))] s2)
         else init_headers env s)"

text \<open>Add the video track to the muxer.\<close>

definition init_videoTrack ::
  "'q qreal_ops \<Rightarrow> webm_env \<Rightarrow> string \<Rightarrow> string \<Rightarrow> 'q VideoMuxerWebmElement
     \<Rightarrow> bool \<times> 'q VideoMuxerWebmElement"
where
  "init_videoTrack ops env vcodec_str acodec_str s =
     (let videoCaps = streamCaps_Video s; loc = location s;
          s1 = (call [segment_AddVideoTrack (vc_width (cvc_rawCaps videoCaps))
                                            (vc_height (cvc_rawCaps videoCaps))] s)
                 \<lparr>m_videoTrackIndex := segment_AddVideoTrack_result env\<rparr>
      in if m_videoTrackIndex s1 < 1 then fail_init loc s1
         else
           let s2 = call [segment_GetTrackByNumber (m_videoTrackIndex s1)] s1
           in if \<not> GetTrackByNumber_video_result env then fail_init loc s2
              else
                let t = m_videoTrackIndex s2
                in init_audioTrack env acodec_str
                     (call [track_set_name t ''Video'',
                            track_set_language t ''und'',
                            track_set_codec_id t vcodec_str,
                            videoTrack_set_width (vc_width (cvc_rawCaps videoCaps)),
                            videoTrack_set_height (vc_height (cvc_rawCaps videoCaps)),
                            videoTrack_set_frame_rate
                              (AkFrac_value ops (vc_fps (cvc_rawCaps videoCaps)))] s2))"

text \<open>Open the file, initialize the segment, set the segment and segment info
  attributes.\<close>

definition init_segment ::
  "'q qreal_ops \<Rightarrow> webm_env \<Rightarrow> string \<Rightarrow> string \<Rightarrow> 'q VideoMuxerWebmElement
     \<Rightarrow> bool \<times> 'q VideoMuxerWebmElement"
where
  "init_segment ops env vcodec_str acodec_str s =
     (let loc = location s;
          s1 = call [writer_Open loc] s
      in if \<not> writer_Open_result env then (False, s1)
         else
           let s2 = call [segment_Init] s1
           in if \<not> segment_Init_result env then fail_init loc s2
              else
                init_videoTrack ops env vcodec_str acodec_str
                  (call ([segment_AccurateClusterDuration (m_accurateClusterDuration s2),
                          segment_UseFixedSizeClusterTimecode (m_fixedSizeClusterTimecode s2),
                          segment_set_mode (m_liveMode s2)]
                         @ (if 0 < m_maxClusterDuration s2
                            then [segment_set_max_cluster_duration (m_maxClusterDuration s2)]
                            else [])
                         @ (if 0 < m_maxClusterSize s2
                            then [segment_set_max_cluster_size (m_maxClusterSize s2)]
                            else [])
                         @ [segment_OutputCues (m_outputCues s2),
                            info_set_timecode_scale (m_timeCodeScale s2),
                            info_set_muxing_app (applicationName env),
                            info_set_writing_app (applicationName env)]) s2))"

text \<open>The head of \<^verbatim>\<open>init\<close>: the checks of the synchronizer, of the video caps and codec,
  and of the audio codec when there are audio caps.\<close>

definition init_webm ::
  "'q qreal_ops \<Rightarrow> webm_env \<Rightarrow> 'q VideoMuxerWebmElement \<Rightarrow> bool \<times> 'q VideoMuxerWebmElement"
where
  "init_webm ops env s =
     (let s0 = uninit_webm ops env s
      in if \<not> m_packetSync s0 then (False, s0)
         else
           let s1 = s0\<lparr>m_audioDuration := q_zero ops,
                       m_videoDuration := q_zero ops,
                       m_audioTrackIndex := 0,
                       m_videoTrackIndex := 0\<rparr>;
               videoCaps = streamCaps_Video s1
           in if \<not> AkCompressedVideoCaps_bool videoCaps then (False, s1)
              else
                let vcodec = VideoCodecsTable_byCodecID (cvc_codec videoCaps)
                in if fst vcodec = VideoCodecID_unknown then (False, s1)
                   else
                     let audioCaps = streamCaps_Audio s1;
                         acodec = AudioCodecsTable_byCodecID (cac_codec audioCaps)
                     in if AkCompressedAudioCaps_bool audioCaps
                           \<and> fst acodec = AudioCodecID_unknown
                        then (False, s1)
                        else init_segment ops env (snd vcodec) (snd acodec) s1)"

text \<open>Modelled from the spec: \<^verbatim>\<open>AkElement::setState\<close> for the muxer, as for the encoder
  above (spec, section 4.1): the base class puts the element into the target state and
  reports success.\<close>

definition AkElement_setState_webm ::
  "'q VideoMuxerWebmElement \<Rightarrow> ElementState \<Rightarrow> bool \<times> 'q VideoMuxerWebmElement"
where
  "AkElement_setState_webm s st = (True, s\<lparr>state_webm := st\<rparr>)"

text \<open>\<^verbatim>\<open>VideoMuxerWebmElement::setState\<close>, of the same shape as the encoder's.\<close>

definition start_webm ::
  "'q qreal_ops \<Rightarrow> webm_env \<Rightarrow> 'q VideoMuxerWebmElement \<Rightarrow> ElementState
     \<Rightarrow> bool \<times> 'q VideoMuxerWebmElement"
where
  "start_webm ops env s st =
     (case init_webm ops env s of
        (False, s1) \<Rightarrow> (False, s1\<lparr>m_paused := False\<rparr>)
      | (True, s1) \<Rightarrow> AkElement_setState_webm s1 st)"

fun setState_webm ::
  "'q qreal_ops \<Rightarrow> webm_env \<Rightarrow> 'q VideoMuxerWebmElement \<Rightarrow> ElementState
     \<Rightarrow> bool \<times> 'q VideoMuxerWebmElement"
where
  "setState_webm ops env s st =
     (case state_webm s of
        ElementStateNull \<Rightarrow>
          (case st of
             ElementStatePaused \<Rightarrow>
               start_webm ops env (s\<lparr>m_paused := (st = ElementStatePaused)\<rparr>) st
           | ElementStatePlaying \<Rightarrow> start_webm ops env s st
           | ElementStateNull \<Rightarrow> (False, s))
      | ElementStatePaused \<Rightarrow>
          (case st of
             ElementStateNull \<Rightarrow> AkElement_setState_webm (uninit_webm ops env s) st
           | ElementStatePlaying \<Rightarrow> AkElement_setState_webm (s\<lparr>m_paused := False\<rparr>) st
           | ElementStatePaused \<Rightarrow> (False, s))
      | ElementStatePlaying \<Rightarrow>
          (case st of
             ElementStateNull \<Rightarrow> AkElement_setState_webm (uninit_webm ops env s) st
           | ElementStatePaused \<Rightarrow> AkElement_setState_webm (s\<lparr>m_paused := True\<rparr>) st
           | ElementStatePlaying \<Rightarrow> (False, s)))"

subsection \<open>PipeWire audio device\<close>

text \<open>A \<^verbatim>\<open>QMap\<close> keeps its entries in ascending order of their keys: it is the list of its
  entries in that order. \<^verbatim>\<open>values()\<close> lists the values in the same order; assigning to
  \<^verbatim>\<open>map[key]\<close> replaces the value of a key that is present and inserts the entry at its
  place otherwise.\<close>

type_synonym ('k, 'v) QMap = "('k \<times> 'v) list"

definition QMap_values :: "('k, 'v) QMap \<Rightarrow> 'v list" where
  "QMap_values m = map snd m"

fun QMap_insert :: "'k::linorder \<Rightarrow> 'v \<Rightarrow> ('k, 'v) QMap \<Rightarrow> ('k, 'v) QMap" where
  "QMap_insert k v [] = [(k, v)]"
| "QMap_insert k v ((k', v') # rest) =
     (if k < k' then (k, v) # (k', v') # rest
      else if k = k' then (k, v) # rest
      else (k', v') # QMap_insert k v rest)"

text \<open>\<^verbatim>\<open>QStringList::value(i)\<close>: the element at index \<open>i\<close>, or a default-constructed, empty
  string when the index is out of range.\<close>

definition QStringList_value :: "string list \<Rightarrow> nat \<Rightarrow> string" where
  "QStringList_value xs i = (if i < length xs then xs ! i else [])"

text \<open>The calls into PipeWire that \<^verbatim>\<open>uninit\<close> makes.\<close>

datatype pw_call =
    pwThreadLoopStop
  | pwStreamDisconnect
  | pwStreamDestroy
  | pwContextDestroy
  | pwThreadLoopDestroy

text \<open>The members of \<^verbatim>\<open>AudioDevPipeWirePrivate\<close> that \<^verbatim>\<open>defaultInput\<close>, \<^verbatim>\<open>defaultOutput\<close>
  and \<^verbatim>\<open>uninit\<close> read or write. The sinks and sources map node ids to node names. For a
  PipeWire handle the field says whether the pointer is non-null.\<close>

record AudioDevPipeWire =
  m_defaultSink :: string
  m_defaultSource :: string
  m_sinks :: "(32 word, string) QMap"
  m_sources :: "(32 word, string) QMap"
  m_pwStreamLoop :: bool
  m_pwStreamContext :: bool
  m_pwStreamCore :: bool
  m_pwStream :: bool
  m_buffers :: "byte list"
  calls_pw :: "pw_call list"

text \<open>The device as its constructor leaves it, before the device loop has reported any
  node.\<close>

definition AudioDevPipeWire_new :: AudioDevPipeWire where
  "AudioDevPipeWire_new =
     \<lparr>m_defaultSink = [], m_defaultSource = [], m_sinks = [], m_sources = [],
      m_pwStreamLoop = False, m_pwStreamContext = False, m_pwStreamCore = False,
      m_pwStream = False, m_buffers = [], calls_pw = []\<rparr>"

text \<open>\<^verbatim>\<open>AudioDevPipeWire::defaultInput\<close> and \<^verbatim>\<open>defaultOutput\<close>; both run under the
  device's mutex.\<close>

definition defaultInput :: "AudioDevPipeWire \<Rightarrow> string" where
  "defaultInput s =
     (let defaultSource = m_defaultSource s
      in if defaultSource = [] then QStringList_value (QMap_values (m_sources s)) 0
         else defaultSource)"

definition defaultOutput :: "AudioDevPipeWire \<Rightarrow> string" where
  "defaultOutput s =
     (let defaultSink = m_defaultSink s
      in if defaultSink = [] then QStringList_value (QMap_values (m_sinks s)) 0
         else defaultSink)"

text \<open>\<^verbatim>\<open>AudioDevPipeWire::uninit\<close>, which always returns true.\<close>

definition uninit_pw :: "AudioDevPipeWire \<Rightarrow> bool \<times> AudioDevPipeWire" where
  "uninit_pw s =
     (let s1 = (if m_pwStreamLoop s
                then s\<lparr>calls_pw := calls_pw s @ [pwThreadLoopStop]\<rparr>
                else s);
          s2 = (if m_pwStream s1
                then s1\<lparr>calls_pw := calls_pw s1 @ [pwStreamDisconnect, pwStreamDestroy],
                        m_pwStream := False\<rparr>
                else s1);
          s3 = (if m_pwStreamContext s2
                then s2\<lparr>calls_pw := calls_pw s2 @ [pwContextDestroy],
                        m_pwStreamContext := False\<rparr>
                else s2);
          s4 = (if m_pwStreamLoop s3
                then s3\<lparr>calls_pw := calls_pw s3 @ [pwThreadLoopDestroy],
                        m_pwStreamLoop := False\<rparr>
                else s3)
      in (True, s4\<lparr>m_buffers := []\<rparr>))"

subsection \<open>Example inputs\<close>

text \<open>A device that has been told of two sinks and two sources, in an order that is not
  the order of their node ids, and has no default yet.\<close>

definition example_devices :: AudioDevPipeWire where
  "example_devices =
     AudioDevPipeWire_new
       \<lparr>m_sinks := QMap_insert 9 ''speakers'' (QMap_insert 5 ''hdmi'' []),
        m_sources := QMap_insert 3 ''mic'' (QMap_insert 7 ''line-in'' [])\<rparr>"

text \<open>A device that knows a sink and two sources and has no default: the sink 5 and the
  source 3 were announced without a node name, and \<^verbatim>\<open>deviceAdded\<close> stores the result of the
  lookup of the name as it is, which for a missing name is the empty string.\<close>

definition unnamed_devices :: AudioDevPipeWire where
  "unnamed_devices =
     AudioDevPipeWire_new
       \<lparr>m_sinks := QMap_insert 5 [] [],
        m_sources := QMap_insert 7 ''mic'' (QMap_insert 3 [] [])\<rparr>"

text \<open>An encoder environment in which every libfaac call succeeds and the gap-filling
  element delivers nothing while it is stopped.\<close>

definition faac_env_ok :: faac_env where
  "faac_env_ok =
     \<lparr>faacEncOpen_result = Some (2048, 1536),
      faacEncGetCurrentConfiguration_result =
        \<lparr>version = 105, aacObjectType = 1, mpegVersion = 0, useTns = 0, allowMidside = 0,
         bitRate = 0, bandWidth = 0, outputFormat = 1, inputFormat = FAAC_INPUT_32BIT\<rparr>,
      FAAC_CFG_VERSION = 105,
      faacEncSetConfiguration_result = True,
      optionValue_mpegVersion = 0,
      optionValue_outputFormat = 0,
      fillAudioGaps_flushed = []\<rparr>"

text \<open>An instance of the double operations to run examples with: exact arithmetic on
  rational numbers, \<^verbatim>\<open>uint64_t(x)\<close> as the integer part, \<^verbatim>\<open>qRound64\<close> as rounding to the
  nearest integer.\<close>

definition exact_ops :: "rat qreal_ops" where
  "exact_ops =
     \<lparr>q_of_qint64 = (\<lambda>w. of_int (sint w)),
      q_of_uint64 = (\<lambda>w. of_int (uint w)),
      q_of_int = (\<lambda>w. of_int (sint w)),
      q_mul = (\<lambda>a b. a * b),
      q_div = (\<lambda>a b. a / b),
      q_less = (\<lambda>a b. a < b),
      q_to_uint64 = (\<lambda>x. word_of_int \<lfloor>x\<rfloor>),
      qRound64 = (\<lambda>x. word_of_int (round x)),
      q_1e9 = 1000000000,
      q_zero = 0,
      AkFrac_value = (\<lambda>f. of_int (sint (num f)) / of_int (sint (den f)))\<rparr>"

text \<open>A muxer environment in which every libwebm call succeeds, the video track gets the
  number 1 and the audio track the number 2, and the synchronizer delivers nothing while it
  is stopped.\<close>

definition webm_env_ok :: webm_env where
  "webm_env_ok =
     \<lparr>writer_Open_result = True,
      segment_Init_result = True,
      segment_AddVideoTrack_result = 1,
      GetTrackByNumber_video_result = True,
      segment_AddAudioTrack_result = 2,
      GetTrackByNumber_audio_result = True,
      GetTrackByNumber_audio_result2 = True,
      applicationName = ''Webcamoid'',
      packetSync_flushed = [],
      reader_Open_result = False,
      tempDir_isValid = True,
      tempDir_filePath = ''/tmp/qt_temp/out_tmp.webm'',
      writer_Open_tmp_result = True,
      CopyAndMoveCuesBeforeClusters_result = True\<rparr>"

text \<open>Video caps for VP9 at 640 by 480 and 30 frames per second, caps for a video codec
  the muxer has no entry for, and a new muxer that was given a location and the VP9 caps,
  without audio caps.\<close>

definition vp9_caps :: AkCompressedVideoCaps where
  "vp9_caps =
     \<lparr>cvc_codec = VideoCodecID_vp9,
      cvc_rawCaps = \<lparr>vc_format = Format_yuv420p, vc_width = 640, vc_height = 480,
                     vc_fps = \<lparr>num = 30, den = 1\<rparr>\<rparr>,
      cvc_bitrate = 1500000\<rparr>"

definition other_codec_caps :: AkCompressedVideoCaps where
  "other_codec_caps = vp9_caps\<lparr>cvc_codec := VideoCodecID_other 264\<rparr>"

definition video_only_muxer :: "rat VideoMuxerWebmElement" where
  "video_only_muxer =
     (VideoMuxerWebmElement_new exact_ops True)
       \<lparr>location := ''/tmp/out.webm'', streamCaps_Video := vp9_caps\<rparr>"


subsection \<open>Notions used in the proofs\<close>

text \<open>A call that neither adds an audio track nor sets the segment duration, a list of
  such calls, and what a section of the muxer's \<^verbatim>\<open>init\<close> does when there are no audio caps:
  it makes only such calls, leaves the audio track index alone, and returns true exactly
  when it leaves the element initialized.\<close>

definition quiet_call :: "'q webm_call \<Rightarrow> bool" where
  "quiet_call c \<longleftrightarrow>
     (\<forall>r ch. c \<noteq> segment_AddAudioTrack r ch) \<and> (\<forall>d. c \<noteq> segment_set_duration d)"

definition quiet :: "'q webm_call list \<Rightarrow> bool" where
  "quiet xs \<longleftrightarrow> list_all quiet_call xs"


text \<open>Opus caps at 48000 Hz, a muxer with VP9 and Opus caps, six packets of the two streams
  in the order of their times, and the muxer after \<^verbatim>\<open>init\<close> and these packets.\<close>

definition opus_caps :: AkCompressedAudioCaps where
  "opus_caps =
     \<lparr>cac_codec = AudioCodecID_opus,
      cac_rawCaps = \<lparr>ac_format = SampleFormat_s16, ac_channels = 2, ac_planar = False,
                     ac_rate = 48000\<rparr>\<rparr>"

definition av_muxer :: "rat VideoMuxerWebmElement" where
  "av_muxer = video_only_muxer\<lparr>streamCaps_Audio := opus_caps\<rparr>"

definition av_packets :: "AkPacket list" where
  "av_packets =
     [\<lparr>pk_type = PacketVideoCompressed, pk_data = [1, 2, 3], pk_pts = 0, pk_duration = 1,
       pk_timeBase = \<lparr>num = 1, den = 30\<rparr>, pk_keyFrame = True\<rparr>,
      \<lparr>pk_type = PacketAudioCompressed, pk_data = [9], pk_pts = 0, pk_duration = 960,
       pk_timeBase = \<lparr>num = 1, den = 48000\<rparr>, pk_keyFrame = False\<rparr>,
      \<lparr>pk_type = PacketAudioCompressed, pk_data = [8], pk_pts = 960, pk_duration = 960,
       pk_timeBase = \<lparr>num = 1, den = 48000\<rparr>, pk_keyFrame = False\<rparr>,
      \<lparr>pk_type = PacketVideoCompressed, pk_data = [4, 5], pk_pts = 1, pk_duration = 1,
       pk_timeBase = \<lparr>num = 1, den = 30\<rparr>, pk_keyFrame = False\<rparr>,
      \<lparr>pk_type = PacketAudioCompressed, pk_data = [7], pk_pts = 1920, pk_duration = 960,
       pk_timeBase = \<lparr>num = 1, den = 48000\<rparr>, pk_keyFrame = False\<rparr>,
      \<lparr>pk_type = PacketAudioCompressed, pk_data = [6], pk_pts = 2880, pk_duration = 960,
       pk_timeBase = \<lparr>num = 1, den = 48000\<rparr>, pk_keyFrame = False\<rparr>]"

definition av_session :: "rat VideoMuxerWebmElement" where
  "av_session =
     fold (\<lambda>packet st. packetReady exact_ops st packet) av_packets
       (snd (init_webm exact_ops webm_env_ok av_muxer))"

subsection \<open>Time stamps: notions and example inputs\<close>

text \<open>The presentation time of a packet in seconds, \<^verbatim>\<open>pts * timeBase.value()\<close>, as the
  muxer computes it.\<close>

definition presentationTime :: "'q qreal_ops \<Rightarrow> AkPacket \<Rightarrow> 'q" where
  "presentationTime ops packet =
     q_mul ops (q_of_qint64 ops (pk_pts packet)) (AkFrac_value ops (pk_timeBase packet))"

text \<open>Modelled from the spec: the packet synchronizer is the plugin \<^verbatim>\<open>Utils/PacketSync\<close>,
  outside the sources at hand. The spec (section 4.3): it lets the muxer receive both
  streams in a globally time-increasing sequence. So in a synchronized sequence no packet
  comes after a packet of a later presentation time; packets of equal times may follow one
  another.\<close>

definition synchronized :: "'q qreal_ops \<Rightarrow> AkPacket list \<Rightarrow> bool" where
  "synchronized ops ps \<longleftrightarrow>
     sorted_wrt (\<lambda>a b. \<not> q_less ops (presentationTime ops b) (presentationTime ops a)) ps"

text \<open>A packet whose presentation time in nanoseconds, a double, is not below 0 and is
  below \<^verbatim>\<open>double(UINT64_MAX)\<close>: the values that the conversion to \<^verbatim>\<open>uint64_t\<close> is
  defined for.\<close>

definition nanoseconds_in_range :: "'q qreal_ops \<Rightarrow> AkPacket \<Rightarrow> bool" where
  "nanoseconds_in_range ops packet \<longleftrightarrow>
     (let ns = q_mul ops (presentationTime ops packet) (q_1e9 ops)
      in \<not> q_less ops ns (q_zero ops) \<and> q_less ops ns (q_of_uint64 ops (- 1)))"

text \<open>What the order of the time stamps needs of the double operations: multiplying by
  \<^verbatim>\<open>1e9\<close> does not reverse the order of two doubles, and neither does the conversion to
  \<^verbatim>\<open>uint64_t\<close> of two doubles from 0 up to below \<^verbatim>\<open>double(UINT64_MAX)\<close>.\<close>

definition keeps_order :: "'q qreal_ops \<Rightarrow> bool" where
  "keeps_order ops \<longleftrightarrow>
     (\<forall>x y. \<not> q_less ops y x \<longrightarrow>
            \<not> q_less ops (q_mul ops y (q_1e9 ops)) (q_mul ops x (q_1e9 ops)))
     \<and> (\<forall>u v. \<not> q_less ops u (q_zero ops) \<and> q_less ops u (q_of_uint64 ops (- 1))
            \<and> \<not> q_less ops v u \<and> q_less ops v (q_of_uint64 ops (- 1)) \<longrightarrow>
            q_to_uint64 ops u \<le> q_to_uint64 ops v)"

text \<open>The time stamps of the frames that a list of libwebm calls adds to the track with
  the number \<open>t\<close>, in the order of the calls.\<close>

definition trackTimestamps :: "64 word \<Rightarrow> 'q webm_call list \<Rightarrow> 64 word list" where
  "trackTimestamps t cs =
     concat (map (\<lambda>c. case c of
                          segment_AddFrame d n track ts k \<Rightarrow> (if track = t then [ts] else [])
                        | _ \<Rightarrow> []) cs)"

text \<open>Two video packets with a time base of a millisecond, the first with the time stamp
  \<open>-1\<close>, in the order of their presentation times.\<close>

definition negative_pts_packets :: "AkPacket list" where
  "negative_pts_packets =
     [\<lparr>pk_type = PacketVideoCompressed, pk_data = [1, 2, 3], pk_pts = - 1, pk_duration = 1,
       pk_timeBase = \<lparr>num = 1, den = 1000\<rparr>, pk_keyFrame = True\<rparr>,
      \<lparr>pk_type = PacketVideoCompressed, pk_data = [4, 5], pk_pts = 0, pk_duration = 1,
       pk_timeBase = \<lparr>num = 1, den = 1000\<rparr>, pk_keyFrame = False\<rparr>]"

text \<open>The packets among the signals an AAC encoder has emitted, in the order of emission.\<close>

definition oStreamPackets :: "faac_signal list \<Rightarrow> AkCompressedAudioPacket list" where
  "oStreamPackets sigs =
     concat (map (\<lambda>sig. case sig of oStream packet \<Rightarrow> [packet] | _ \<Rightarrow> []) sigs)"

text \<open>A list of packets in which the first has the time stamp \<open>p\<close> and each next one the
  time stamp of the one before plus its duration, in \<^verbatim>\<open>qint64\<close> arithmetic.\<close>

fun pts_chain :: "qint64 \<Rightarrow> AkCompressedAudioPacket list \<Rightarrow> bool" where
  "pts_chain p [] \<longleftrightarrow> True"
| "pts_chain p (x # xs) \<longleftrightarrow> cap_pts x = p \<and> pts_chain (p + cap_duration x) xs"

text \<open>The frames for which \<^verbatim>\<open>encodeFrame\<close> reaches \<^verbatim>\<open>sendFrame\<close>: valid ones for which
  \<^verbatim>\<open>faacEncEncode\<close> wrote at least one byte.\<close>

definition emits :: "AkAudioPacket \<times> cint \<Rightarrow> bool" where
  "emits f \<longleftrightarrow> ap_bool (fst f) \<and> 0 <s snd f"

text \<open>An AAC encoder with input caps of 44100 Hz stereo, and four frames of 1024 samples
  for which the native encoder returns 0 bytes (it is still buffering), then 371, 402 and
  398 bytes.\<close>

definition aac_encoder :: AudioEncoderFaacElement where
  "aac_encoder =
     updateOutputCaps_aac
       ((AudioEncoderFaacElement_new True 128000 True)
          \<lparr>inputCaps_aac := \<lparr>ac_format = SampleFormat_s16, ac_channels = 2,
                              ac_planar = False, ac_rate = 44100\<rparr>\<rparr>)
       \<lparr>ac_format = SampleFormat_s16, ac_channels = 2, ac_planar = False, ac_rate = 44100\<rparr>"

definition aac_frames :: "(AkAudioPacket \<times> cint) list" where
  "aac_frames =
     [(\<lparr>ap_bool = True, ap_id = 7, ap_index = 1, ap_samples = 1024, ap_channels = 2\<rparr>, 0),
      (\<lparr>ap_bool = True, ap_id = 7, ap_index = 1, ap_samples = 1024, ap_channels = 2\<rparr>, 371),
      (\<lparr>ap_bool = True, ap_id = 7, ap_index = 1, ap_samples = 1024, ap_channels = 2\<rparr>, 402),
      (\<lparr>ap_bool = True, ap_id = 7, ap_index = 1, ap_samples = 1024, ap_channels = 2\<rparr>, 398)]"

section \<open>Proofs\<close>

subsection \<open>Word arithmetic without overflow\<close>

lemma stb31: "- 2147483648 \<le> (x::int) \<Longrightarrow> x < 2147483648 \<Longrightarrow> signed_take_bit 31 x = x"
  by (rule signed_take_bit_int_eq_self) simp_all

lemma sint_diff32:
  fixes t rate :: cint
  assumes "- 2147483648 \<le> sint t - sint rate" "sint t - sint rate < 2147483648"
  shows "sint (t - rate) = sint t - sint rate"
  using assms by (simp add: sint_word_diff stb31)

lemma sint_qAbs:
  fixes d :: cint
  assumes "- 2147483648 < sint d"
  shows "sint (qAbs d) = \<bar>sint d\<bar>"
proof (cases "0 \<le> sint d")
  case True
  then show ?thesis by (simp add: qAbs_def word_sle_eq)
next
  case False
  have "sint d < 2147483648" using sint_lt [of d] by simp
  with False assms have "sint (- d) = - sint d"
    by (simp add: sint_word_minus stb31)
  with False show ?thesis by (simp add: qAbs_def word_sle_eq)
qed

lemma uint_scast64:
  fixes a :: cint
  assumes "0 \<le> sint a"
  shows "uint (scast a :: quint64) = sint a"
proof -
  have s: "sint (scast a :: quint64) = sint a"
    by (rule sint_up_scast) (simp add: is_up)
  have "sint a < 2147483648" using sint_lt [of a] by simp
  then have "sint a < 2 ^ 64" by simp
  with assms have "take_bit 64 (sint a) = sint a"
    by (simp add: take_bit_int_eq_self)
  then show ?thesis
    using uint_sint [of "scast a :: quint64"] s by simp
qed

lemma key_is_distance:
  fixes t rate :: cint
  assumes "- 2147483648 < sint t - sint rate" "sint t - sint rate < 2147483648"
  shows "uint (scast (qAbs (t - rate)) :: quint64) = rateDistance t rate"
proof -
  have d: "sint (t - rate) = sint t - sint rate"
    using assms by (simp add: sint_diff32)
  then have "sint (qAbs (t - rate)) = \<bar>sint t - sint rate\<bar>"
    using assms sint_qAbs [of "t - rate"] by simp
  then show ?thesis
    using uint_scast64 [of "qAbs (t - rate)"] by (simp add: rateDistance_def)
qed

subsection \<open>The nearest supported sample rate\<close>

text \<open>The loop invariant: \<open>q\<close> is the distance of the best rate found so far. The result
  is either that rate, and then nothing in the rest of the table is nearer, or an entry of
  the rest that is strictly nearer than everything before it and at least as near as
  everything after it.\<close>

lemma nearestSampleRate_loop_first_min:
  assumes keys: "\<forall>x\<in>set xs. uint (scast (qAbs (x - rate)) :: quint64) = rateDistance x rate"
    and q: "uint q = rateDistance nearest rate"
  shows "(nearestSampleRate_loop rate xs nearest q = nearest
            \<and> (\<forall>x\<in>set xs. rateDistance nearest rate \<le> rateDistance x rate))
       \<or> (\<exists>ys zs. xs = ys @ nearestSampleRate_loop rate xs nearest q # zs
            \<and> rateDistance (nearestSampleRate_loop rate xs nearest q) rate < rateDistance nearest rate
            \<and> (\<forall>y\<in>set ys. rateDistance (nearestSampleRate_loop rate xs nearest q) rate < rateDistance y rate)
            \<and> (\<forall>z\<in>set zs. rateDistance (nearestSampleRate_loop rate xs nearest q) rate \<le> rateDistance z rate))"
  using assms
proof (induction xs arbitrary: nearest q)
  case Nil
  then show ?case by simp
next
  case (Cons x xs)
  let ?k = "scast (qAbs (x - rate)) :: quint64"
  have kx: "uint ?k = rateDistance x rate" using Cons.prems(1) by simp
  have keys': "\<forall>x\<in>set xs. uint (scast (qAbs (x - rate)) :: quint64) = rateDistance x rate"
    using Cons.prems(1) by simp
  show ?case
  proof (cases "?k < q")
    case True
    then have lt: "rateDistance x rate < rateDistance nearest rate"
      using kx Cons.prems(2) by (simp add: word_less_def)
    have step: "nearestSampleRate_loop rate (x # xs) nearest q = nearestSampleRate_loop rate xs x ?k"
      using True by (simp add: Let_def)
    let ?r = "nearestSampleRate_loop rate xs x ?k"
    from Cons.IH [OF keys' kx]
    consider (stay) "?r = x" "\<forall>y\<in>set xs. rateDistance x rate \<le> rateDistance y rate"
      | (move) ys zs where "xs = ys @ ?r # zs" "rateDistance ?r rate < rateDistance x rate"
          "\<forall>y\<in>set ys. rateDistance ?r rate < rateDistance y rate"
          "\<forall>z\<in>set zs. rateDistance ?r rate \<le> rateDistance z rate"
      by blast
    then show ?thesis
    proof cases
      case stay
      then have "x # xs = [] @ ?r # xs" by simp
      with stay lt show ?thesis unfolding step by (intro disjI2 exI [of _ "[]"] exI [of _ xs]) simp
    next
      case move
      then have "x # xs = (x # ys) @ ?r # zs" by simp
      with move lt show ?thesis unfolding step
        by (intro disjI2 exI [of _ "x # ys"] exI [of _ zs]) auto
    qed
  next
    case False
    then have ge: "rateDistance nearest rate \<le> rateDistance x rate"
      using kx Cons.prems(2) by (simp add: word_less_def)
    have step: "nearestSampleRate_loop rate (x # xs) nearest q = nearestSampleRate_loop rate xs nearest q"
      using False by (simp add: Let_def)
    let ?r = "nearestSampleRate_loop rate xs nearest q"
    from Cons.IH [OF keys' Cons.prems(2)]
    consider (stay) "?r = nearest" "\<forall>y\<in>set xs. rateDistance nearest rate \<le> rateDistance y rate"
      | (move) ys zs where "xs = ys @ ?r # zs" "rateDistance ?r rate < rateDistance nearest rate"
          "\<forall>y\<in>set ys. rateDistance ?r rate < rateDistance y rate"
          "\<forall>z\<in>set zs. rateDistance ?r rate \<le> rateDistance z rate"
      by blast
    then show ?thesis
    proof cases
      case stay
      with ge show ?thesis unfolding step by simp
    next
      case move
      then have "x # xs = (x # ys) @ ?r # zs" by simp
      with move ge show ?thesis unfolding step
        by (intro disjI2 exI [of _ "x # ys"] exI [of _ zs]) auto
    qed
  qed
qed

lemma table_in_range:
  assumes "x \<in> set faacEncSupportedSampleRates"
  shows "8000 \<le> sint x \<and> sint x \<le> 96000"
  using assms by (auto simp: faacEncSupportedSampleRates_def)

lemma table_keys:
  assumes "- 2147387647 \<le> sint rate"
  shows "\<forall>x\<in>set faacEncSupportedSampleRates.
           uint (scast (qAbs (x - rate)) :: quint64) = rateDistance x rate"
proof
  fix x assume "x \<in> set faacEncSupportedSampleRates"
  then have r: "8000 \<le> sint x" "sint x \<le> 96000" using table_in_range by auto
  have "sint rate < 2147483648" using sint_lt [of rate] by simp
  with r assms show "uint (scast (qAbs (x - rate)) :: quint64) = rateDistance x rate"
    by (intro key_is_distance) auto
qed

lemma nearestSampleRate_first_min:
  assumes "- 2147387647 \<le> sint rate"
  shows "\<exists>ys zs. faacEncSupportedSampleRates = ys @ nearestSampleRate rate # zs
           \<and> (\<forall>t\<in>set faacEncSupportedSampleRates.
                 rateDistance (nearestSampleRate rate) rate \<le> rateDistance t rate)
           \<and> (\<forall>y\<in>set ys. rateDistance (nearestSampleRate rate) rate < rateDistance y rate)"
proof -
  define rest :: "cint list"
    where "rest = [11025, 12000, 16000, 22050, 24000, 32000, 44100, 48000, 64000, 88200, 96000]"
  define k :: quint64 where "k = scast (qAbs (8000 - rate))"
  have T: "faacEncSupportedSampleRates = 8000 # rest"
    by (simp add: faacEncSupportedSampleRates_def rest_def)
  have keys: "\<forall>x\<in>set faacEncSupportedSampleRates.
           uint (scast (qAbs (x - rate)) :: quint64) = rateDistance x rate"
    using assms by (rule table_keys)
  then have k0: "uint k = rateDistance 8000 rate"
    and keys': "\<forall>x\<in>set rest. uint (scast (qAbs (x - rate)) :: quint64) = rateDistance x rate"
    unfolding T k_def by simp_all
  have "rateDistance 8000 rate < 2 ^ 64 - 1"
    using sint_lt [of rate] sint_ge [of rate] by (simp add: rateDistance_def)
  moreover have "uint (- 1 :: quint64) = 2 ^ 64 - 1"
    by (simp add: unsigned_minus_1_eq_mask mask_eq_exp_minus_1)
  ultimately have "k < - 1"
    using k0 by (simp add: word_less_def)
  then have start: "nearestSampleRate rate = nearestSampleRate_loop rate rest 8000 k"
    unfolding nearestSampleRate_def T k_def by (simp add: Let_def)
  define r where "r = nearestSampleRate_loop rate rest 8000 k"
  from nearestSampleRate_loop_first_min [OF keys' k0]
  consider (stay) "r = 8000" "\<forall>y\<in>set rest. rateDistance 8000 rate \<le> rateDistance y rate"
    | (move) ys zs where "rest = ys @ r # zs" "rateDistance r rate < rateDistance 8000 rate"
        "\<forall>y\<in>set ys. rateDistance r rate < rateDistance y rate"
        "\<forall>z\<in>set zs. rateDistance r rate \<le> rateDistance z rate"
    unfolding r_def by blast
  then have "\<exists>ys zs. faacEncSupportedSampleRates = ys @ r # zs
           \<and> (\<forall>t\<in>set faacEncSupportedSampleRates. rateDistance r rate \<le> rateDistance t rate)
           \<and> (\<forall>y\<in>set ys. rateDistance r rate < rateDistance y rate)"
  proof cases
    case stay
    have "faacEncSupportedSampleRates = [] @ r # rest" using stay(1) by (simp add: T)
    moreover have "\<forall>t\<in>set faacEncSupportedSampleRates. rateDistance r rate \<le> rateDistance t rate"
      using stay unfolding T by simp
    ultimately show ?thesis by (intro exI [of _ "[]"] exI [of _ rest]) simp
  next
    case move
    have d: "faacEncSupportedSampleRates = (8000 # ys) @ r # zs" using move(1) by (simp add: T)
    have "\<forall>t\<in>set ((8000 # ys) @ r # zs). rateDistance r rate \<le> rateDistance t rate"
      using move(2-4) by auto
    then have "\<forall>t\<in>set faacEncSupportedSampleRates. rateDistance r rate \<le> rateDistance t rate"
      unfolding d .
    moreover have "\<forall>y\<in>set (8000 # ys). rateDistance r rate < rateDistance y rate"
      using move(2,3) by simp
    ultimately show ?thesis using d by blast
  qed
  then show ?thesis unfolding start r_def .
qed

text \<open>
  Claim C3, as amended. For every rate from \<open>- 2147387647\<close> upwards (so for every rate that is
  not negative), \<^const>\<open>nearestSampleRate\<close> returns an entry of the table of supported rates
  whose absolute distance to the rate is minimal over the table, and every entry before it
  in table order is strictly farther away: among equidistant entries the first one wins.
  Below that bound the subtraction \<^verbatim>\<open>*srate - rate\<close> leaves the range of \<^verbatim>\<open>int\<close>.
\<close>

theorem nearestSampleRate_first_nearest:
  assumes "- 2147387647 \<le> sint rate"
  shows "\<exists>ys zs. faacEncSupportedSampleRates = ys @ nearestSampleRate rate # zs
           \<and> (\<forall>t\<in>set faacEncSupportedSampleRates.
                 rateDistance (nearestSampleRate rate) rate \<le> rateDistance t rate)
           \<and> (\<forall>y\<in>set ys. rateDistance (nearestSampleRate rate) rate < rateDistance y rate)"
  using assms by (rule nearestSampleRate_first_min)

text \<open>At 14000 the entries 12000 and 16000 are equally near; the earlier one is returned.\<close>

theorem nearestSampleRate_first_nearest_witness:
  "- 2147387647 \<le> sint (14000 :: cint) \<and> nearestSampleRate 14000 = 12000
   \<and> rateDistance 12000 14000 = rateDistance 16000 14000
   \<and> (\<exists>ys zs. faacEncSupportedSampleRates = ys @ nearestSampleRate 14000 # zs
           \<and> (\<forall>t\<in>set faacEncSupportedSampleRates.
                 rateDistance (nearestSampleRate 14000) 14000 \<le> rateDistance t 14000)
           \<and> (\<forall>y\<in>set ys. rateDistance (nearestSampleRate 14000) 14000 < rateDistance y 14000))"
proof -
  have h: "- 2147387647 \<le> sint (14000 :: cint)" by simp
  have "nearestSampleRate 14000 = 12000"
    by (simp add: nearestSampleRate_def faacEncSupportedSampleRates_def qAbs_def word_sle_eq)
  moreover have "rateDistance 12000 14000 = rateDistance 16000 14000"
    by (simp add: rateDistance_def)
  ultimately show ?thesis using h nearestSampleRate_first_nearest [OF h] by blast
qed

text \<open>
  Claim C3 as stated, for every integer rate, fails at the smallest \<^verbatim>\<open>int\<close>: every
  difference \<^verbatim>\<open>*srate - rate\<close> wraps around, the largest entry gets the smallest key, and
  96000 is returned although 8000 is nearer.
\<close>

theorem nearestSampleRate_overflow_counterexample:
  "nearestSampleRate (- 2147483648) = 96000
   \<and> 8000 \<in> set faacEncSupportedSampleRates
   \<and> rateDistance 8000 (- 2147483648) < rateDistance (nearestSampleRate (- 2147483648)) (- 2147483648)"
  by (simp add: nearestSampleRate_def faacEncSupportedSampleRates_def qAbs_def word_sle_eq
      rateDistance_def)

subsection \<open>The AAC header\<close>

lemma sri_44100: "sampleRateIndex 44100 = 4"
  by (simp add: sampleRateIndex_def faacEncSampleRateIndex_def)

lemma asc_bits_44100_stereo:
  "resizeBits (putBits (putBits (putBits (putBits (putBits (putBits (putBits (putBits (putBits
      [] 5 2) 4 4) 4 2) 1 0) 1 0) 1 0) 11 0x2b7) 5 5) 1 0) (32 * 8) =
     [False, False, False, True, False,  False, True, False, False,  False, False, True, False,
      False, False, False,
      False, True, False, True, False, True, True, False, True, True, True,
      False, False, True, False, True,  False] @ replicate 223 False"
  by code_simp

lemma bytes_44100_stereo:
  "bitsToByteArray
     ([False, False, False, True, False,  False, True, False, False,  False, False, True, False,
       False, False, False,
       False, True, False, True, False, True, True, False, True, True, True,
       False, False, True, False, True,  False] @ replicate 223 False) =
   [0x12, 0x10, 0x56, 0xE5] @ replicate 28 0"
  by code_simp

lemma header_44100_stereo:
  assumes "ac_rate (cac_rawCaps (m_outputCaps_aac s)) = 44100"
    and "ac_channels (cac_rawCaps (m_outputCaps_aac s)) = 2"
    and "aacObjectType (m_config s) = LOW"
  shows "bitsToByteArray (audioSpecificConfig s) = [0x12, 0x10, 0x56, 0xE5] @ replicate 28 0"
proof -
  have "audioSpecificConfig s =
      resizeBits (putBits (putBits (putBits (putBits (putBits (putBits (putBits (putBits (putBits
        [] 5 2) 4 4) 4 2) 1 0) 1 0) 1 0) 11 0x2b7) 5 5) 1 0) (32 * 8)"
    using assms by (simp add: audioSpecificConfig_def LOW_def sri_44100 Let_def word_sle_eq)
  then show ?thesis
    by (simp only: asc_bits_44100_stereo bytes_44100_stereo)
qed

lemma header_fields_44100_stereo:
  "headerField ([0x12, 0x10, 0x56, 0xE5] @ replicate 28 0) 0 5 = 2"
  "headerField ([0x12, 0x10, 0x56, 0xE5] @ replicate 28 0) 5 4 = 4"
  "headerField ([0x12, 0x10, 0x56, 0xE5] @ replicate 28 0) 9 4 = 2"
  by code_simp+

lemma m_headers_updateHeaders:
  "m_headers_aac (updateHeaders s) = bitsToByteArray (audioSpecificConfig s)"
  by (simp add: updateHeaders_def Let_def)

text \<open>
  Claim C2. When the output caps have rate 44100 and 2 channels, and the object type is
  \<open>LOW\<close> as \<^verbatim>\<open>init\<close> sets it before it calls \<^verbatim>\<open>updateHeaders\<close>, the header blob is the 32
  bytes \<open>12 10 56 E5 00 \<dots> 00\<close>: read most significant bit first, its first 5 bits are 2,
  the next 4 bits are 4, the index of 44100 in the rate table, and the next 4 bits are 2,
  the channel count.
\<close>

theorem updateHeaders_44100_stereo:
  assumes "ac_rate (cac_rawCaps (m_outputCaps_aac s)) = 44100"
    and "ac_channels (cac_rawCaps (m_outputCaps_aac s)) = 2"
    and "aacObjectType (m_config s) = LOW"
  shows "m_headers_aac (updateHeaders s) = [0x12, 0x10, 0x56, 0xE5] @ replicate 28 0
       \<and> headerField (m_headers_aac (updateHeaders s)) 0 5 = 2
       \<and> headerField (m_headers_aac (updateHeaders s)) 5 4 = 4
       \<and> headerField (m_headers_aac (updateHeaders s)) 9 4 = 2"
  unfolding m_headers_updateHeaders header_44100_stereo [OF assms]
  by (simp only: header_fields_44100_stereo)


text \<open>The hypotheses hold for a new element whose input caps were set to stereo at 44100 Hz
  and whose configuration carries the object type \<open>LOW\<close>.\<close>

theorem updateHeaders_44100_stereo_witness:
  "(let s = (updateOutputCaps_aac (AudioEncoderFaacElement_new True 128000 True)
              \<lparr>ac_format = SampleFormat_s16, ac_channels = 2, ac_planar = False, ac_rate = 44100\<rparr>)
            \<lparr>m_config := \<lparr>version = 0, aacObjectType = LOW, mpegVersion = 0, useTns = 0,
                  allowMidside = 1, bitRate = 64000, bandWidth = 0, outputFormat = 0,
                  inputFormat = FAAC_INPUT_16BIT\<rparr>\<rparr>
    in ac_rate (cac_rawCaps (m_outputCaps_aac s)) = 44100
     \<and> ac_channels (cac_rawCaps (m_outputCaps_aac s)) = 2
     \<and> aacObjectType (m_config s) = LOW
     \<and> m_headers_aac (updateHeaders s) = [0x12, 0x10, 0x56, 0xE5] @ replicate 28 0
     \<and> headerField (m_headers_aac (updateHeaders s)) 0 5 = 2
     \<and> headerField (m_headers_aac (updateHeaders s)) 5 4 = 4
     \<and> headerField (m_headers_aac (updateHeaders s)) 9 4 = 2)"
proof -
  define s where "s = (updateOutputCaps_aac (AudioEncoderFaacElement_new True 128000 True)
              \<lparr>ac_format = SampleFormat_s16, ac_channels = 2, ac_planar = False, ac_rate = 44100\<rparr>)
            \<lparr>m_config := \<lparr>version = 0, aacObjectType = LOW, mpegVersion = 0, useTns = 0,
                  allowMidside = 1, bitRate = 64000, bandWidth = 0, outputFormat = 0,
                  inputFormat = FAAC_INPUT_16BIT\<rparr>\<rparr>"
  have n: "nearestSampleRate 44100 = 44100"
    by (simp add: nearestSampleRate_def faacEncSupportedSampleRates_def qAbs_def word_sle_eq)
  have r: "ac_rate (cac_rawCaps (m_outputCaps_aac s)) = 44100"
    by (simp add: s_def updateOutputCaps_aac_def AudioEncoderFaacElement_new_def
        AkAudioCaps_bool_def codecID_aac_def byFormat_def faacSampleFormatTable_def
        qBound_def qMin_def qMax_def word_sless_alt n Let_def AkCompressedAudioCaps_default_def AkAudioCaps_default_def)
  have c: "ac_channels (cac_rawCaps (m_outputCaps_aac s)) = 2"
    by (simp add: s_def updateOutputCaps_aac_def AudioEncoderFaacElement_new_def
        AkAudioCaps_bool_def codecID_aac_def byFormat_def faacSampleFormatTable_def
        qBound_def qMin_def qMax_def word_sless_alt n Let_def AkCompressedAudioCaps_default_def AkAudioCaps_default_def)
  have l: "aacObjectType (m_config s) = LOW"
    by (simp add: s_def)
  show ?thesis
    using r c l updateHeaders_44100_stereo [OF r c l] unfolding s_def [symmetric] Let_def by blast
qed

subsection \<open>Output caps negotiation\<close>

lemma nearestSampleRate_loop_mem:
  "nearestSampleRate_loop rate xs nearest q \<in> insert nearest (set xs)"
  by (induction xs arbitrary: nearest q) (auto simp: Let_def)

lemma qAbs_not_minus_1: "qAbs d \<noteq> - 1"
proof
  assume a: "qAbs d = - 1"
  show False
  proof (cases "0 \<le> sint d")
    case True
    with a have "d = - 1" by (simp add: qAbs_def word_sle_eq)
    with True show False by simp
  next
    case False
    with a have "- d = - 1" by (simp add: qAbs_def word_sle_eq)
    then have "d = 1" by simp
    with False show False by simp
  qed
qed

lemma scast_key_less_max: "(scast (qAbs d) :: quint64) < - 1"
proof -
  have "(scast (qAbs d) :: quint64) \<noteq> - 1"
  proof
    assume "(scast (qAbs d) :: quint64) = - 1"
    then have "sint (scast (qAbs d) :: quint64) = - 1" by simp
    moreover have "sint (scast (qAbs d) :: quint64) = sint (qAbs d)"
      by (rule sint_up_scast) (simp add: is_up)
    ultimately have "sint (qAbs d) = sint (- 1 :: cint)" by simp
    then have "qAbs d = - 1" by (rule signed_word_eqI)
    then show False using qAbs_not_minus_1 by simp
  qed
  then have "uint (scast (qAbs d) :: quint64) \<noteq> uint (- 1 :: quint64)"
    by (simp only: word_uint_eq_iff [symmetric] not_False_eq_True)
  moreover have "uint (- 1 :: quint64) = 2 ^ 64 - 1"
    by (simp add: unsigned_minus_1_eq_mask mask_eq_exp_minus_1)
  moreover have "uint (scast (qAbs d) :: quint64) < 2 ^ 64"
    using uint_lt2p [of "scast (qAbs d) :: quint64"] by simp
  ultimately show ?thesis
    by (simp add: word_less_def)
qed

lemma nearestSampleRate_in_table: "nearestSampleRate rate \<in> set faacEncSupportedSampleRates"
proof -
  define rest :: "cint list"
    where "rest = [11025, 12000, 16000, 22050, 24000, 32000, 44100, 48000, 64000, 88200, 96000]"
  have T: "faacEncSupportedSampleRates = 8000 # rest"
    by (simp add: faacEncSupportedSampleRates_def rest_def)
  have "nearestSampleRate rate = nearestSampleRate_loop rate rest 8000 (scast (qAbs (8000 - rate)))"
    unfolding nearestSampleRate_def T using scast_key_less_max [of "8000 - rate"]
    by (simp add: Let_def)
  then show ?thesis
    using nearestSampleRate_loop_mem [of rate rest 8000 "scast (qAbs (8000 - rate))"]
    unfolding T by simp
qed

lemma nearestSampleRate_positive: "0 <s nearestSampleRate rate"
  using nearestSampleRate_in_table [of rate]
  by (auto simp: faacEncSupportedSampleRates_def word_sless_alt)

lemma qBound_1_2: "qBound 1 v 2 = 1 \<or> qBound 1 v 2 = 2"
proof (cases "2 <s v")
  case True
  then show ?thesis by (simp add: qBound_def qMin_def qMax_def word_sless_alt)
next
  case False
  then have m: "qMin 2 v = v" by (simp add: qMin_def)
  show ?thesis
  proof (cases "1 <s v")
    case True
    with False have "sint v = 2" by (simp add: word_sless_alt)
    then have "sint v = sint (2 :: cint)" by simp
    then have "v = 2" by (rule signed_word_eqI)
    then show ?thesis by (simp add: qBound_def qMin_def qMax_def word_sless_alt)
  next
    case False
    then show ?thesis by (simp add: qBound_def m qMax_def)
  qed
qed

lemma qBound_1_2_range: "1 \<le>s qBound 1 v 2 \<and> qBound 1 v 2 \<le>s 2"
  using qBound_1_2 [of v] by (auto simp: word_sle_eq)

lemma qBound_1_2_id:
  assumes "1 \<le>s v" "v \<le>s 2"
  shows "qBound 1 v 2 = v"
proof -
  have "sint v = sint (1 :: cint) \<or> sint v = sint (2 :: cint)"
    using assms by (auto simp: word_sle_eq)
  then have "v = 1 \<or> v = 2"
    by (auto intro: signed_word_eqI)
  then show ?thesis
    by (auto simp: qBound_def qMin_def qMax_def word_sless_alt)
qed

lemma byFormat_cases:
  "byFormat f = (if f = SampleFormat_s16 then (SampleFormat_s16, FAAC_INPUT_16BIT)
                 else if f = SampleFormat_s32 then (SampleFormat_s32, FAAC_INPUT_32BIT)
                 else (SampleFormat_none, FAAC_INPUT_NULL))"
  by (simp add: byFormat_def faacSampleFormatTable_def)

lemma updateOutputCaps_aac_valid:
  assumes "AkAudioCaps_bool ic" "codecID_aac (codec_aac s) \<noteq> AudioCodecID_unknown"
  shows "m_outputCaps_aac (updateOutputCaps_aac s ic) =
     \<lparr>cac_codec = AudioCodecID_aac,
      cac_rawCaps = \<lparr>ac_format = (if ac_format ic = SampleFormat_s16 \<or> ac_format ic = SampleFormat_s32
                                  then ac_format ic else SampleFormat_s16),
                     ac_channels = qBound 1 (ac_channels ic) 2,
                     ac_planar = False,
                     ac_rate = nearestSampleRate (ac_rate ic)\<rparr>\<rparr>"
  using assms
  by (auto simp: updateOutputCaps_aac_def Let_def byFormat_cases codecID_aac_def split: if_splits)

lemma resetOutputCaps_aac_empty:
  "\<not> AkCompressedAudioCaps_bool (m_outputCaps_aac (resetOutputCaps_aac s))"
  by (simp add: resetOutputCaps_aac_def AkCompressedAudioCaps_bool_def
      AkCompressedAudioCaps_default_def)

lemma updateOutputCaps_aac_invalid:
  assumes "\<not> (AkAudioCaps_bool ic \<and> codecID_aac (codec_aac s) \<noteq> AudioCodecID_unknown)"
  shows "\<not> AkCompressedAudioCaps_bool (m_outputCaps_aac (updateOutputCaps_aac s ic))"
  using assms resetOutputCaps_aac_empty [of s]
  by (auto simp: updateOutputCaps_aac_def Let_def)

lemma byPixFormat_in_table:
  "fst (byPixFormat f) = Format_none \<or> fst (byPixFormat f) = f"
  by (cases f) (simp_all add: byPixFormat_def rav1ePixFormatTable_def)

lemma byPixFormat_yuv420p: "byPixFormat Format_yuv420p = (Format_yuv420p, RA_CHROMA_SAMPLING_CS420, 8)"
  by (simp add: byPixFormat_def rav1ePixFormatTable_def)

lemma updateOutputCaps_av1_valid:
  assumes "AkVideoCaps_bool ic" "codecID_av1 (codec_av1 s) \<noteq> VideoCodecID_unknown"
  shows "m_outputCaps_av1 (updateOutputCaps_av1 s ic) =
     \<lparr>cvc_codec = VideoCodecID_av1,
      cvc_rawCaps = \<lparr>vc_format = (if fst (byPixFormat (vc_format ic)) = Format_none
                                  then Format_yuv420p else vc_format ic),
                     vc_width = vc_width ic,
                     vc_height = vc_height ic,
                     vc_fps = (if AkFrac_bool (vc_fps ic) then vc_fps ic else \<lparr>num = 30, den = 1\<rparr>)\<rparr>,
      cvc_bitrate = bitrate_av1 s\<rparr>"
  using assms byPixFormat_in_table [of "vc_format ic"]
  by (auto simp: updateOutputCaps_av1_def Let_def byPixFormat_yuv420p codecID_av1_def split: if_splits)

lemma resetOutputCaps_av1_empty:
  "\<not> AkCompressedVideoCaps_bool (m_outputCaps_av1 (resetOutputCaps_av1 s))"
  by (simp add: resetOutputCaps_av1_def AkCompressedVideoCaps_bool_def
      AkCompressedVideoCaps_default_def)

lemma updateOutputCaps_av1_invalid:
  assumes "\<not> (AkVideoCaps_bool ic \<and> codecID_av1 (codec_av1 s) \<noteq> VideoCodecID_unknown)"
  shows "\<not> AkCompressedVideoCaps_bool (m_outputCaps_av1 (updateOutputCaps_av1 s ic))"
  using assms resetOutputCaps_av1_empty [of s]
  by (auto simp: updateOutputCaps_av1_def Let_def)

text \<open>
  Claim C7. For input caps that are valid and a codec id that is known, the derived output
  caps are valid, whatever the input format, channel count and rate are: the AAC encoder
  keeps the formats \<open>s16\<close> and \<open>s32\<close> and puts \<open>s16\<close> in the place of any other, clamps
  the channels into 1..2 (keeping a count that is already there) and takes the supported
  rate nearest to the input rate; the AV1 encoder keeps a pixel format of its table and puts
  \<open>yuv420p\<close> in the place of any other, and keeps width and height. Conversely the output
  caps are valid only if the input caps are valid and the codec id is known: only then are
  they not empty.
\<close>

theorem updateOutputCaps_fallbacks:
  "(AkAudioCaps_bool ic \<and> codecID_aac (codec_aac s) \<noteq> AudioCodecID_unknown \<longrightarrow>
      (let out = m_outputCaps_aac (updateOutputCaps_aac s ic)
       in AkCompressedAudioCaps_bool out
        \<and> cac_codec out = codecID_aac (codec_aac s)
        \<and> ac_format (cac_rawCaps out) =
            (if ac_format ic = SampleFormat_s16 \<or> ac_format ic = SampleFormat_s32
             then ac_format ic else SampleFormat_s16)
        \<and> ac_channels (cac_rawCaps out) = qBound 1 (ac_channels ic) 2
        \<and> 1 \<le>s ac_channels (cac_rawCaps out) \<and> ac_channels (cac_rawCaps out) \<le>s 2
        \<and> (1 \<le>s ac_channels ic \<and> ac_channels ic \<le>s 2 \<longrightarrow>
              ac_channels (cac_rawCaps out) = ac_channels ic)
        \<and> ac_rate (cac_rawCaps out) = nearestSampleRate (ac_rate ic)
        \<and> ac_rate (cac_rawCaps out) \<in> set faacEncSupportedSampleRates
        \<and> (\<forall>t\<in>set faacEncSupportedSampleRates.
              rateDistance (ac_rate (cac_rawCaps out)) (ac_rate ic) \<le> rateDistance t (ac_rate ic))))
   \<and> (AkCompressedAudioCaps_bool (m_outputCaps_aac (updateOutputCaps_aac s ic)) \<longrightarrow>
        AkAudioCaps_bool ic \<and> codecID_aac (codec_aac s) \<noteq> AudioCodecID_unknown)
   \<and> (AkVideoCaps_bool vc \<and> codecID_av1 (codec_av1 v) \<noteq> VideoCodecID_unknown \<longrightarrow>
      (let out = m_outputCaps_av1 (updateOutputCaps_av1 v vc)
       in AkCompressedVideoCaps_bool out
        \<and> cvc_codec out = codecID_av1 (codec_av1 v)
        \<and> vc_format (cvc_rawCaps out) =
            (if fst (byPixFormat (vc_format vc)) = Format_none
             then Format_yuv420p else vc_format vc)
        \<and> vc_width (cvc_rawCaps out) = vc_width vc
        \<and> vc_height (cvc_rawCaps out) = vc_height vc))
   \<and> (AkCompressedVideoCaps_bool (m_outputCaps_av1 (updateOutputCaps_av1 v vc)) \<longrightarrow>
        AkVideoCaps_bool vc \<and> codecID_av1 (codec_av1 v) \<noteq> VideoCodecID_unknown)"
proof (intro conjI impI)
  assume a: "AkAudioCaps_bool ic \<and> codecID_aac (codec_aac s) \<noteq> AudioCodecID_unknown"
  then have k: "codecID_aac (codec_aac s) = AudioCodecID_aac"
    by (simp add: codecID_aac_def split: if_splits)
  from a have "0 <s ac_rate ic" by (simp add: AkAudioCaps_bool_def)
  then have "- 2147387647 \<le> sint (ac_rate ic)" by (simp add: word_sless_alt)
  then have near: "\<forall>t\<in>set faacEncSupportedSampleRates.
      rateDistance (nearestSampleRate (ac_rate ic)) (ac_rate ic) \<le> rateDistance t (ac_rate ic)"
    using nearestSampleRate_first_min [of "ac_rate ic"] by blast
  from a have out: "m_outputCaps_aac (updateOutputCaps_aac s ic) =
     \<lparr>cac_codec = AudioCodecID_aac,
      cac_rawCaps = \<lparr>ac_format = (if ac_format ic = SampleFormat_s16 \<or> ac_format ic = SampleFormat_s32
                                  then ac_format ic else SampleFormat_s16),
                     ac_channels = qBound 1 (ac_channels ic) 2,
                     ac_planar = False,
                     ac_rate = nearestSampleRate (ac_rate ic)\<rparr>\<rparr>"
    by (simp add: updateOutputCaps_aac_valid)
  have pos: "0 <s qBound 1 (ac_channels ic) 2"
    using qBound_1_2 [of "ac_channels ic"] by (auto simp: word_sless_alt)
  show "let out = m_outputCaps_aac (updateOutputCaps_aac s ic)
       in AkCompressedAudioCaps_bool out
        \<and> cac_codec out = codecID_aac (codec_aac s)
        \<and> ac_format (cac_rawCaps out) =
            (if ac_format ic = SampleFormat_s16 \<or> ac_format ic = SampleFormat_s32
             then ac_format ic else SampleFormat_s16)
        \<and> ac_channels (cac_rawCaps out) = qBound 1 (ac_channels ic) 2
        \<and> 1 \<le>s ac_channels (cac_rawCaps out) \<and> ac_channels (cac_rawCaps out) \<le>s 2
        \<and> (1 \<le>s ac_channels ic \<and> ac_channels ic \<le>s 2 \<longrightarrow>
              ac_channels (cac_rawCaps out) = ac_channels ic)
        \<and> ac_rate (cac_rawCaps out) = nearestSampleRate (ac_rate ic)
        \<and> ac_rate (cac_rawCaps out) \<in> set faacEncSupportedSampleRates
        \<and> (\<forall>t\<in>set faacEncSupportedSampleRates.
              rateDistance (ac_rate (cac_rawCaps out)) (ac_rate ic) \<le> rateDistance t (ac_rate ic))"
    unfolding Let_def out
    using k near pos qBound_1_2_range [of "ac_channels ic"] qBound_1_2_id [of "ac_channels ic"]
      nearestSampleRate_in_table [of "ac_rate ic"] nearestSampleRate_positive [of "ac_rate ic"]
    by (simp add: AkCompressedAudioCaps_bool_def AkAudioCaps_bool_def)
next
  assume "AkCompressedAudioCaps_bool (m_outputCaps_aac (updateOutputCaps_aac s ic))"
  then show "AkAudioCaps_bool ic" "codecID_aac (codec_aac s) \<noteq> AudioCodecID_unknown"
    using updateOutputCaps_aac_invalid [of ic s] by blast+
next
  assume a: "AkVideoCaps_bool vc \<and> codecID_av1 (codec_av1 v) \<noteq> VideoCodecID_unknown"
  then have k: "codecID_av1 (codec_av1 v) = VideoCodecID_av1"
    by (simp add: codecID_av1_def split: if_splits)
  from a have out: "m_outputCaps_av1 (updateOutputCaps_av1 v vc) =
     \<lparr>cvc_codec = VideoCodecID_av1,
      cvc_rawCaps = \<lparr>vc_format = (if fst (byPixFormat (vc_format vc)) = Format_none
                                  then Format_yuv420p else vc_format vc),
                     vc_width = vc_width vc,
                     vc_height = vc_height vc,
                     vc_fps = (if AkFrac_bool (vc_fps vc) then vc_fps vc else \<lparr>num = 30, den = 1\<rparr>)\<rparr>,
      cvc_bitrate = bitrate_av1 v\<rparr>"
    by (simp add: updateOutputCaps_av1_valid)
  show "let out = m_outputCaps_av1 (updateOutputCaps_av1 v vc)
       in AkCompressedVideoCaps_bool out
        \<and> cvc_codec out = codecID_av1 (codec_av1 v)
        \<and> vc_format (cvc_rawCaps out) =
            (if fst (byPixFormat (vc_format vc)) = Format_none
             then Format_yuv420p else vc_format vc)
        \<and> vc_width (cvc_rawCaps out) = vc_width vc
        \<and> vc_height (cvc_rawCaps out) = vc_height vc"
    unfolding Let_def out using a k
    by (simp add: AkCompressedVideoCaps_bool_def AkVideoCaps_bool_def)
next
  assume "AkCompressedVideoCaps_bool (m_outputCaps_av1 (updateOutputCaps_av1 v vc))"
  then show "AkVideoCaps_bool vc" "codecID_av1 (codec_av1 v) \<noteq> VideoCodecID_unknown"
    using updateOutputCaps_av1_invalid [of vc v] by blast+
qed

text \<open>Float samples, six channels and 44000 Hz become \<open>s16\<close>, stereo and 44100 Hz; RGB frames
  without a frame rate become \<open>yuv420p\<close> at 30 frames per second.\<close>

theorem updateOutputCaps_fallbacks_witness:
  "AkAudioCaps_bool \<lparr>ac_format = SampleFormat_flt, ac_channels = 6, ac_planar = True, ac_rate = 44000\<rparr>
   \<and> codecID_aac (codec_aac (AudioEncoderFaacElement_new True 128000 True)) \<noteq> AudioCodecID_unknown
   \<and> m_outputCaps_aac (updateOutputCaps_aac (AudioEncoderFaacElement_new True 128000 True)
        \<lparr>ac_format = SampleFormat_flt, ac_channels = 6, ac_planar = True, ac_rate = 44000\<rparr>) =
      \<lparr>cac_codec = AudioCodecID_aac,
       cac_rawCaps = \<lparr>ac_format = SampleFormat_s16, ac_channels = 2, ac_planar = False,
                      ac_rate = 44100\<rparr>\<rparr>
   \<and> AkCompressedAudioCaps_bool
        (m_outputCaps_aac (updateOutputCaps_aac (AudioEncoderFaacElement_new True 128000 True)
          \<lparr>ac_format = SampleFormat_flt, ac_channels = 6, ac_planar = True, ac_rate = 44000\<rparr>))
   \<and> AkVideoCaps_bool \<lparr>vc_format = Format_rgb24, vc_width = 640, vc_height = 480,
                        vc_fps = \<lparr>num = 0, den = 0\<rparr>\<rparr>
   \<and> codecID_av1 (codec_av1 (VideoEncoderRav1eElement_new 1500000)) \<noteq> VideoCodecID_unknown
   \<and> m_outputCaps_av1 (updateOutputCaps_av1 (VideoEncoderRav1eElement_new 1500000)
        \<lparr>vc_format = Format_rgb24, vc_width = 640, vc_height = 480,
         vc_fps = \<lparr>num = 0, den = 0\<rparr>\<rparr>) =
      \<lparr>cvc_codec = VideoCodecID_av1,
       cvc_rawCaps = \<lparr>vc_format = Format_yuv420p, vc_width = 640, vc_height = 480,
                      vc_fps = \<lparr>num = 30, den = 1\<rparr>\<rparr>,
       cvc_bitrate = 1500000\<rparr>
   \<and> AkCompressedVideoCaps_bool
        (m_outputCaps_av1 (updateOutputCaps_av1 (VideoEncoderRav1eElement_new 1500000)
          \<lparr>vc_format = Format_rgb24, vc_width = 640, vc_height = 480,
           vc_fps = \<lparr>num = 0, den = 0\<rparr>\<rparr>))"
proof -
  define ic where "ic = \<lparr>ac_format = SampleFormat_flt, ac_channels = 6, ac_planar = True, ac_rate = 44000\<rparr>"
  define s where "s = AudioEncoderFaacElement_new True 128000 True"
  define vc where "vc = \<lparr>vc_format = Format_rgb24, vc_width = 640, vc_height = 480,
                        vc_fps = \<lparr>num = 0, den = 0\<rparr>\<rparr>"
  define v where "v = VideoEncoderRav1eElement_new 1500000"
  have h1: "AkAudioCaps_bool ic \<and> codecID_aac (codec_aac s) \<noteq> AudioCodecID_unknown"
    by (simp add: ic_def s_def AkAudioCaps_bool_def word_sless_alt codecID_aac_def
        AudioEncoderFaacElement_new_def)
  have h2: "AkVideoCaps_bool vc \<and> codecID_av1 (codec_av1 v) \<noteq> VideoCodecID_unknown"
    by (simp add: vc_def v_def AkVideoCaps_bool_def word_sless_alt codecID_av1_def
        VideoEncoderRav1eElement_new_def)
  have n: "nearestSampleRate 44000 = 44100"
    by (simp add: nearestSampleRate_def faacEncSupportedSampleRates_def qAbs_def word_sle_eq)
  have b: "qBound 1 6 2 = 2"
    by (simp add: qBound_def qMin_def qMax_def word_sless_alt)
  have o1: "m_outputCaps_aac (updateOutputCaps_aac s ic) =
      \<lparr>cac_codec = AudioCodecID_aac,
       cac_rawCaps = \<lparr>ac_format = SampleFormat_s16, ac_channels = 2, ac_planar = False,
                      ac_rate = 44100\<rparr>\<rparr>"
    using h1 by (simp add: updateOutputCaps_aac_valid) (simp add: ic_def n b)
  have o2: "m_outputCaps_av1 (updateOutputCaps_av1 v vc) =
      \<lparr>cvc_codec = VideoCodecID_av1,
       cvc_rawCaps = \<lparr>vc_format = Format_yuv420p, vc_width = 640, vc_height = 480,
                      vc_fps = \<lparr>num = 30, den = 1\<rparr>\<rparr>,
       cvc_bitrate = 1500000\<rparr>"
    using h2 by (simp add: updateOutputCaps_av1_valid)
      (simp add: vc_def v_def byPixFormat_def rav1ePixFormatTable_def AkFrac_bool_def
        VideoEncoderRav1eElement_new_def)
  from updateOutputCaps_fallbacks [of ic s vc v] h1 h2
  have "AkCompressedAudioCaps_bool (m_outputCaps_aac (updateOutputCaps_aac s ic))"
    and "AkCompressedVideoCaps_bool (m_outputCaps_av1 (updateOutputCaps_av1 v vc))"
    by (simp_all add: Let_def)
  with h1 h2 o1 o2 show ?thesis
    unfolding ic_def s_def vc_def v_def by blast
qed

subsection \<open>The default audio devices\<close>

lemma keys_QMap_insert:
  "set (map fst (QMap_insert k v m)) = insert k (set (map fst m))"
proof (induction m)
  case Nil
  then show ?case by simp
next
  case (Cons e m)
  obtain k' v' where e: "e = (k', v')" by (cases e)
  from Cons.IH show ?case
    by (cases "k < k'"; cases "k = k'") (simp_all add: e insert_commute)
qed

lemma sorted_QMap_insert:
  "sorted (map fst m) \<Longrightarrow> sorted (map fst (QMap_insert k v m))"
proof (induction m)
  case Nil
  then show ?case by simp
next
  case (Cons e m)
  obtain k' v' where e: "e = (k', v')" by (cases e)
  from Cons.prems have s: "sorted (map fst m)" and le: "\<forall>x\<in>set m. k' \<le> fst x"
    by (auto simp: e)
  show ?case
  proof (cases "k < k'")
    case True
    with Cons.prems le show ?thesis by (auto simp: e)
  next
    case False
    show ?thesis
    proof (cases "k = k'")
      case True
      with Cons.prems show ?thesis by (simp add: e)
    next
      case False
      with \<open>\<not> k < k'\<close> have "k' < k" by simp
      then have "\<forall>x\<in>set (map fst (QMap_insert k v m)). k' \<le> x"
        using le unfolding keys_QMap_insert by auto
      with Cons.IH [OF s] False \<open>\<not> k < k'\<close> show ?thesis
        by (simp add: e)
    qed
  qed
qed

lemma QStringList_value_0: "QStringList_value xs 0 = (case xs of [] \<Rightarrow> [] | x # _ \<Rightarrow> x)"
  by (simp add: QStringList_value_def split: list.splits)

lemma hd_least_key:
  assumes "sorted (map fst m)" "distinct (map fst m)" "(k, v) \<in> set m" "\<forall>e\<in>set m. k \<le> fst e"
  shows "QStringList_value (QMap_values m) 0 = v"
proof (cases m)
  case Nil
  with assms show ?thesis by simp
next
  case (Cons e rest)
  have "fst e \<le> k" using assms(1,3) Cons by auto
  moreover have "k \<le> fst e" using assms(4) Cons by simp
  ultimately have k: "fst e = k" by simp
  have "e = (k, v)"
  proof (rule ccontr)
    assume "e \<noteq> (k, v)"
    with assms(3) Cons have "(k, v) \<in> set rest" by auto
    then have "k \<in> set (map fst rest)" by force
    with assms(2) Cons k show False by simp
  qed
  then show ?thesis by (simp add: Cons QStringList_value_0 QMap_values_def)
qed

text \<open>
  Claim C10, as amended. When no default source is set, \<^verbatim>\<open>defaultInput\<close> returns the first
  source in map order, which is the name of the source with the least node id; when one is
  set, that one is returned. The result is empty exactly when no default is set and either
  no source is known or the first source in map order has an empty name; so as long as no
  known source has an empty name, it is empty only if no source is known. The same holds
  for \<^verbatim>\<open>defaultOutput\<close> and the sinks.
\<close>

theorem default_device_first_in_map:
  "(m_defaultSource s = [] \<and> m_sources s \<noteq> [] \<longrightarrow>
      defaultInput s = snd (hd (m_sources s)))
   \<and> (m_defaultSource s = [] \<and> sorted (map fst (m_sources s)) \<and> distinct (map fst (m_sources s))
        \<and> (k, v) \<in> set (m_sources s) \<and> (\<forall>e\<in>set (m_sources s). k \<le> fst e) \<longrightarrow>
      defaultInput s = v)
   \<and> (m_defaultSource s \<noteq> [] \<longrightarrow> defaultInput s = m_defaultSource s)
   \<and> (defaultInput s = [] \<longleftrightarrow>
        m_defaultSource s = [] \<and> (m_sources s = [] \<or> snd (hd (m_sources s)) = []))
   \<and> ((\<forall>e\<in>set (m_sources s). snd e \<noteq> []) \<longrightarrow>
        (defaultInput s = [] \<longleftrightarrow> m_defaultSource s = [] \<and> m_sources s = []))
   \<and> (m_defaultSink s = [] \<and> m_sinks s \<noteq> [] \<longrightarrow>
      defaultOutput s = snd (hd (m_sinks s)))
   \<and> (m_defaultSink s = [] \<and> sorted (map fst (m_sinks s)) \<and> distinct (map fst (m_sinks s))
        \<and> (k', v') \<in> set (m_sinks s) \<and> (\<forall>e\<in>set (m_sinks s). k' \<le> fst e) \<longrightarrow>
      defaultOutput s = v')
   \<and> (m_defaultSink s \<noteq> [] \<longrightarrow> defaultOutput s = m_defaultSink s)
   \<and> (defaultOutput s = [] \<longleftrightarrow>
        m_defaultSink s = [] \<and> (m_sinks s = [] \<or> snd (hd (m_sinks s)) = []))
   \<and> ((\<forall>e\<in>set (m_sinks s). snd e \<noteq> []) \<longrightarrow>
        (defaultOutput s = [] \<longleftrightarrow> m_defaultSink s = [] \<and> m_sinks s = []))"
proof -
  have 1: "m_defaultSource s = [] \<and> m_sources s \<noteq> [] \<longrightarrow>
      defaultInput s = snd (hd (m_sources s))"
    by (cases "m_sources s")
       (simp_all add: defaultInput_def QStringList_value_0 QMap_values_def)
  have 2: "m_defaultSource s = [] \<and> sorted (map fst (m_sources s)) \<and> distinct (map fst (m_sources s))
        \<and> (k, v) \<in> set (m_sources s) \<and> (\<forall>e\<in>set (m_sources s). k \<le> fst e) \<longrightarrow>
      defaultInput s = v"
    using hd_least_key [of "m_sources s" k v] by (simp add: defaultInput_def)
  have 3: "m_defaultSource s \<noteq> [] \<longrightarrow> defaultInput s = m_defaultSource s"
    by (simp add: defaultInput_def)
  have 4: "defaultInput s = [] \<longleftrightarrow>
        m_defaultSource s = [] \<and> (m_sources s = [] \<or> snd (hd (m_sources s)) = [])"
    by (cases "m_sources s")
       (auto simp: defaultInput_def QStringList_value_0 QMap_values_def Let_def)
  have 9: "(\<forall>e\<in>set (m_sources s). snd e \<noteq> []) \<longrightarrow>
        (defaultInput s = [] \<longleftrightarrow> m_defaultSource s = [] \<and> m_sources s = [])"
    by (cases "m_sources s")
       (auto simp: defaultInput_def QStringList_value_0 QMap_values_def Let_def)
  have 5: "m_defaultSink s = [] \<and> m_sinks s \<noteq> [] \<longrightarrow>
      defaultOutput s = snd (hd (m_sinks s))"
    by (cases "m_sinks s")
       (simp_all add: defaultOutput_def QStringList_value_0 QMap_values_def)
  have 6: "m_defaultSink s = [] \<and> sorted (map fst (m_sinks s)) \<and> distinct (map fst (m_sinks s))
        \<and> (k', v') \<in> set (m_sinks s) \<and> (\<forall>e\<in>set (m_sinks s). k' \<le> fst e) \<longrightarrow>
      defaultOutput s = v'"
    using hd_least_key [of "m_sinks s" k' v'] by (simp add: defaultOutput_def)
  have 7: "m_defaultSink s \<noteq> [] \<longrightarrow> defaultOutput s = m_defaultSink s"
    by (simp add: defaultOutput_def)
  have 8: "defaultOutput s = [] \<longleftrightarrow>
        m_defaultSink s = [] \<and> (m_sinks s = [] \<or> snd (hd (m_sinks s)) = [])"
    by (cases "m_sinks s")
       (auto simp: defaultOutput_def QStringList_value_0 QMap_values_def Let_def)
  have 10: "(\<forall>e\<in>set (m_sinks s). snd e \<noteq> []) \<longrightarrow>
        (defaultOutput s = [] \<longleftrightarrow> m_defaultSink s = [] \<and> m_sinks s = [])"
    by (cases "m_sinks s")
       (auto simp: defaultOutput_def QStringList_value_0 QMap_values_def Let_def)
  from 1 2 3 4 5 6 7 8 9 10 show ?thesis by blast
qed

text \<open>With the sources 7 and 3 the input is the name of node 3; with a default set it is the
  default; a new device without any node answers with the empty string.\<close>

theorem default_device_first_in_map_witness:
  "m_defaultSource example_devices = [] \<and> m_sources example_devices \<noteq> []
   \<and> sorted (map fst (m_sources example_devices)) \<and> distinct (map fst (m_sources example_devices))
   \<and> (3, ''mic'') \<in> set (m_sources example_devices)
   \<and> list_all (\<lambda>e. 3 \<le> fst e) (m_sources example_devices)
   \<and> list_all (\<lambda>e. snd e \<noteq> []) (m_sources example_devices)
   \<and> defaultInput example_devices = ''mic''
   \<and> m_defaultSink example_devices = [] \<and> m_sinks example_devices \<noteq> []
   \<and> sorted (map fst (m_sinks example_devices)) \<and> distinct (map fst (m_sinks example_devices))
   \<and> (5, ''hdmi'') \<in> set (m_sinks example_devices)
   \<and> list_all (\<lambda>e. 5 \<le> fst e) (m_sinks example_devices)
   \<and> list_all (\<lambda>e. snd e \<noteq> []) (m_sinks example_devices)
   \<and> defaultOutput example_devices = ''hdmi''
   \<and> m_defaultSource (example_devices\<lparr>m_defaultSource := ''line-in'', m_defaultSink := ''speakers''\<rparr>) \<noteq> []
   \<and> defaultInput (example_devices\<lparr>m_defaultSource := ''line-in'', m_defaultSink := ''speakers''\<rparr>) = ''line-in''
   \<and> m_defaultSink (example_devices\<lparr>m_defaultSource := ''line-in'', m_defaultSink := ''speakers''\<rparr>) \<noteq> []
   \<and> defaultOutput (example_devices\<lparr>m_defaultSource := ''line-in'', m_defaultSink := ''speakers''\<rparr>) = ''speakers''
   \<and> list_all (\<lambda>e. snd e \<noteq> []) (m_sources AudioDevPipeWire_new)
   \<and> list_all (\<lambda>e. snd e \<noteq> []) (m_sinks AudioDevPipeWire_new)
   \<and> defaultInput AudioDevPipeWire_new = [] \<and> defaultOutput AudioDevPipeWire_new = []"
proof -
  have src: "m_sources example_devices = [(3, ''mic''), (7, ''line-in'')]"
    and snk: "m_sinks example_devices = [(5, ''hdmi''), (9, ''speakers'')]"
    and d: "m_defaultSource example_devices = []" "m_defaultSink example_devices = []"
    by (simp_all add: example_devices_def AudioDevPipeWire_new_def)
  have new: "m_sources AudioDevPipeWire_new = []" "m_sinks AudioDevPipeWire_new = []"
    "m_defaultSource AudioDevPipeWire_new = []" "m_defaultSink AudioDevPipeWire_new = []"
    by (simp_all add: AudioDevPipeWire_new_def)
  note a = default_device_first_in_map [of example_devices 3 "''mic''" 5 "''hdmi''"]
  note b = default_device_first_in_map
    [of "example_devices\<lparr>m_defaultSource := ''line-in'', m_defaultSink := ''speakers''\<rparr>"]
  note c = default_device_first_in_map [of AudioDevPipeWire_new]
  show ?thesis
    using a b c by (simp add: src snk d new list_all_iff)
qed

text \<open>
  Claim C10 as stated, that the result is empty only when no device of the kind is known,
  fails for a device that knows the sources 3 and 7 and the sink 5, of which 3 and 5 have
  no name: both functions return the empty string.
\<close>

theorem default_device_unnamed_counterexample:
  "m_defaultSource unnamed_devices = []
   \<and> m_sources unnamed_devices = [(3, []), (7, ''mic'')]
   \<and> defaultInput unnamed_devices = []
   \<and> m_defaultSink unnamed_devices = []
   \<and> m_sinks unnamed_devices = [(5, [])]
   \<and> defaultOutput unnamed_devices = []"
  by (simp add: unnamed_devices_def AudioDevPipeWire_new_def defaultInput_def defaultOutput_def
      QStringList_value_0 QMap_values_def)

subsection \<open>What the operations leave unchanged\<close>

lemma sendFrame_fields [simp]:
  "m_initialized_aac (sendFrame s n w) = m_initialized_aac s"
  "m_encoder_aac (sendFrame s n w) = m_encoder_aac s"
  "m_paused_aac (sendFrame s n w) = m_paused_aac s"
  "m_outputCaps_aac (sendFrame s n w) = m_outputCaps_aac s"
  "state_aac (sendFrame s n w) = state_aac s"
  by (simp_all add: sendFrame_def Let_def)

lemma encodeFrame_fields [simp]:
  "m_initialized_aac (encodeFrame s f) = m_initialized_aac s"
  "m_encoder_aac (encodeFrame s f) = m_encoder_aac s"
  "m_paused_aac (encodeFrame s f) = m_paused_aac s"
  "m_outputCaps_aac (encodeFrame s f) = m_outputCaps_aac s"
  "state_aac (encodeFrame s f) = state_aac s"
  by (simp_all add: encodeFrame_def Let_def)

lemma fold_encodeFrame_fields [simp]:
  "m_initialized_aac (fold (\<lambda>frame st. encodeFrame st frame) fs s) = m_initialized_aac s"
  "m_encoder_aac (fold (\<lambda>frame st. encodeFrame st frame) fs s) = m_encoder_aac s"
  "m_paused_aac (fold (\<lambda>frame st. encodeFrame st frame) fs s) = m_paused_aac s"
  "m_outputCaps_aac (fold (\<lambda>frame st. encodeFrame st frame) fs s) = m_outputCaps_aac s"
  "state_aac (fold (\<lambda>frame st. encodeFrame st frame) fs s) = state_aac s"
  by (induction fs arbitrary: s) simp_all

lemma uninit_aac_not_initialized: "\<not> m_initialized_aac (uninit_aac env s)"
  by (simp add: uninit_aac_def Let_def)

lemma uninit_aac_noop: "\<not> m_initialized_aac s \<Longrightarrow> uninit_aac env s = s"
  by (simp add: uninit_aac_def)

lemma call_fields [simp]:
  "m_initialized (call cs s) = m_initialized s"
  "m_audioTrackIndex (call cs s) = m_audioTrackIndex s"
  "m_videoTrackIndex (call cs s) = m_videoTrackIndex s"
  "m_cuesBeforeClusters (call cs s) = m_cuesBeforeClusters s"
  "m_packetSync (call cs s) = m_packetSync s"
  "location (call cs s) = location s"
  "streamCaps_Audio (call cs s) = streamCaps_Audio s"
  "streamCaps_Video (call cs s) = streamCaps_Video s"
  "streamHeaders_Audio (call cs s) = streamHeaders_Audio s"
  "streamHeaders_Video (call cs s) = streamHeaders_Video s"
  "streamDuration_Audio (call cs s) = streamDuration_Audio s"
  "streamDuration_Video (call cs s) = streamDuration_Video s"
  "m_timeCodeScale (call cs s) = m_timeCodeScale s"
  "m_audioDuration (call cs s) = m_audioDuration s"
  "m_videoDuration (call cs s) = m_videoDuration s"
  "state_webm (call cs s) = state_webm s"
  "calls (call cs s) = calls s @ cs"
  by (simp_all add: call_def)

lemma packetReady_fields [simp]:
  "m_initialized (packetReady ops s p) = m_initialized s"
  "m_audioTrackIndex (packetReady ops s p) = m_audioTrackIndex s"
  "m_videoTrackIndex (packetReady ops s p) = m_videoTrackIndex s"
  "m_cuesBeforeClusters (packetReady ops s p) = m_cuesBeforeClusters s"
  "location (packetReady ops s p) = location s"
  "streamCaps_Audio (packetReady ops s p) = streamCaps_Audio s"
  "streamCaps_Video (packetReady ops s p) = streamCaps_Video s"
  "streamDuration_Audio (packetReady ops s p) = streamDuration_Audio s"
  "streamDuration_Video (packetReady ops s p) = streamDuration_Video s"
  "m_timeCodeScale (packetReady ops s p) = m_timeCodeScale s"
  "state_webm (packetReady ops s p) = state_webm s"
  by (simp_all add: packetReady_def Let_def)

lemma fold_packetReady_fields [simp]:
  "m_initialized (fold (\<lambda>packet st. packetReady ops st packet) ps s) = m_initialized s"
  "m_audioTrackIndex (fold (\<lambda>packet st. packetReady ops st packet) ps s) = m_audioTrackIndex s"
  "m_videoTrackIndex (fold (\<lambda>packet st. packetReady ops st packet) ps s) = m_videoTrackIndex s"
  "m_cuesBeforeClusters (fold (\<lambda>packet st. packetReady ops st packet) ps s) = m_cuesBeforeClusters s"
  "location (fold (\<lambda>packet st. packetReady ops st packet) ps s) = location s"
  "streamCaps_Audio (fold (\<lambda>packet st. packetReady ops st packet) ps s) = streamCaps_Audio s"
  "streamCaps_Video (fold (\<lambda>packet st. packetReady ops st packet) ps s) = streamCaps_Video s"
  "streamDuration_Audio (fold (\<lambda>packet st. packetReady ops st packet) ps s) = streamDuration_Audio s"
  "streamDuration_Video (fold (\<lambda>packet st. packetReady ops st packet) ps s) = streamDuration_Video s"
  "m_timeCodeScale (fold (\<lambda>packet st. packetReady ops st packet) ps s) = m_timeCodeScale s"
  "state_webm (fold (\<lambda>packet st. packetReady ops st packet) ps s) = state_webm s"
  by (induction ps arbitrary: s) simp_all

lemma stopPacketSync_fields [simp]:
  "\<not> m_initialized (stopPacketSync ops env s)"
  "m_audioTrackIndex (stopPacketSync ops env s) = m_audioTrackIndex s"
  "m_cuesBeforeClusters (stopPacketSync ops env s) = m_cuesBeforeClusters s"
  by (simp_all add: stopPacketSync_def)

lemma moveCuesBeforeClusters_fields [simp]:
  "m_initialized (moveCuesBeforeClusters env s) = m_initialized s"
  "m_audioTrackIndex (moveCuesBeforeClusters env s) = m_audioTrackIndex s"
  by (simp_all add: moveCuesBeforeClusters_def Let_def)

lemma uninit_webm_not_initialized: "\<not> m_initialized (uninit_webm ops env s)"
  by (simp add: uninit_webm_def Let_def)

lemma uninit_webm_noop: "\<not> m_initialized s \<Longrightarrow> uninit_webm ops env s = s"
  by (simp add: uninit_webm_def)

lemma uninit_pw_closed:
  "\<not> m_pwStreamLoop p \<Longrightarrow> \<not> m_pwStream p \<Longrightarrow> \<not> m_pwStreamContext p \<Longrightarrow> m_buffers p = []
   \<Longrightarrow> uninit_pw p = (True, p)"
  by (simp add: uninit_pw_def)

lemma uninit_pw_result:
  "\<not> m_pwStreamLoop (snd (uninit_pw p))" "\<not> m_pwStream (snd (uninit_pw p))"
  "\<not> m_pwStreamContext (snd (uninit_pw p))" "m_buffers (snd (uninit_pw p)) = []"
  by (simp_all add: uninit_pw_def Let_def)

subsection \<open>The state machine\<close>

text \<open>
  Claim C1, as amended. For the AAC encoder and for the WebM muxer, \<^verbatim>\<open>setState\<close> with a
  target equal to the current state (\<open>Null\<close> to \<open>Null\<close>, \<open>Paused\<close> to \<open>Paused\<close>, \<open>Playing\<close>
  to \<open>Playing\<close>) leaves the element as it is, its state, its members, the calls it made
  and the signals it emitted, and returns false.
\<close>

theorem setState_same_state:
  "setState_aac env a (state_aac a) = (False, a)
   \<and> setState_webm ops wenv m (state_webm m) = (False, m)"
  by (cases "state_aac a"; cases "state_webm m") simp_all

text \<open>The encoder as constructed, asked for \<open>Null\<close>, and a muxer in the state \<open>Playing\<close>,
  asked for \<open>Playing\<close>.\<close>

theorem setState_same_state_witness:
  "state_aac (AudioEncoderFaacElement_new True 128000 True) = ElementStateNull
   \<and> setState_aac faac_env_ok (AudioEncoderFaacElement_new True 128000 True) ElementStateNull
       = (False, AudioEncoderFaacElement_new True 128000 True)
   \<and> state_webm (video_only_muxer\<lparr>state_webm := ElementStatePlaying\<rparr>) = ElementStatePlaying
   \<and> setState_webm exact_ops webm_env_ok (video_only_muxer\<lparr>state_webm := ElementStatePlaying\<rparr>)
        ElementStatePlaying
       = (False, video_only_muxer\<lparr>state_webm := ElementStatePlaying\<rparr>)"
proof -
  have a: "state_aac (AudioEncoderFaacElement_new True 128000 True) = ElementStateNull"
    by (simp add: AudioEncoderFaacElement_new_def)
  have m: "state_webm (video_only_muxer\<lparr>state_webm := ElementStatePlaying\<rparr>) = ElementStatePlaying"
    by simp
  from setState_same_state [of faac_env_ok "AudioEncoderFaacElement_new True 128000 True"
      exact_ops webm_env_ok "video_only_muxer\<lparr>state_webm := ElementStatePlaying\<rparr>"]
  show ?thesis unfolding a m using a m by blast
qed

text \<open>
  Claim C1 as stated, that such a call returns success, fails for the transition from
  \<open>Null\<close> to \<open>Null\<close> of a new encoder and of a new muxer: both calls return false.
\<close>

theorem setState_same_state_counterexample:
  "state_aac (AudioEncoderFaacElement_new True 128000 True) = ElementStateNull
   \<and> \<not> fst (setState_aac faac_env_ok (AudioEncoderFaacElement_new True 128000 True)
              ElementStateNull)
   \<and> state_webm video_only_muxer = ElementStateNull
   \<and> \<not> fst (setState_webm exact_ops webm_env_ok video_only_muxer ElementStateNull)"
  by (simp add: AudioEncoderFaacElement_new_def video_only_muxer_def
      VideoMuxerWebmElement_new_def)

text \<open>
  Claim C9. An element that is not initialized is left exactly as it is by \<^verbatim>\<open>uninit\<close>: no
  member changes and no call is made, so nothing is released. A second \<^verbatim>\<open>uninit\<close> right
  after a first one is such a call, whatever the first one did. Asking an element in the
  state \<open>Null\<close> for the state \<open>Null\<close> changes nothing either. This holds for the AAC
  encoder and the WebM muxer, which are not initialized when \<open>m_initialized\<close> is false, and
  for the PipeWire device, which is not initialized when it holds no loop, stream or
  context and its buffer is empty.
\<close>

theorem uninit_idempotent:
  "(\<not> m_initialized_aac a \<longrightarrow> uninit_aac env a = a)
   \<and> uninit_aac env2 (uninit_aac env a) = uninit_aac env a
   \<and> (state_aac a = ElementStateNull \<longrightarrow> setState_aac env a ElementStateNull = (False, a))
   \<and> (\<not> m_initialized m \<longrightarrow> uninit_webm ops wenv m = m)
   \<and> uninit_webm ops wenv2 (uninit_webm ops wenv m) = uninit_webm ops wenv m
   \<and> (state_webm m = ElementStateNull \<longrightarrow> setState_webm ops wenv m ElementStateNull = (False, m))
   \<and> (\<not> m_pwStreamLoop p \<and> \<not> m_pwStream p \<and> \<not> m_pwStreamContext p \<and> m_buffers p = []
        \<longrightarrow> uninit_pw p = (True, p))
   \<and> uninit_pw (snd (uninit_pw p)) = (True, snd (uninit_pw p))"
proof (intro conjI impI)
  show "uninit_aac env2 (uninit_aac env a) = uninit_aac env a"
    by (rule uninit_aac_noop) (rule uninit_aac_not_initialized)
  show "uninit_webm ops wenv2 (uninit_webm ops wenv m) = uninit_webm ops wenv m"
    by (rule uninit_webm_noop) (rule uninit_webm_not_initialized)
  show "uninit_pw (snd (uninit_pw p)) = (True, snd (uninit_pw p))"
    by (rule uninit_pw_closed) (rule uninit_pw_result)+
qed (simp_all add: uninit_aac_noop uninit_webm_noop uninit_pw_closed)

text \<open>The elements as constructed are not initialized. A device that holds a loop, a
  context and a stream releases each of them once, and nothing in a second \<^verbatim>\<open>uninit\<close>.\<close>

theorem uninit_idempotent_witness:
  "\<not> m_initialized_aac (AudioEncoderFaacElement_new True 128000 True)
   \<and> uninit_aac faac_env_ok (AudioEncoderFaacElement_new True 128000 True)
       = AudioEncoderFaacElement_new True 128000 True
   \<and> state_aac (AudioEncoderFaacElement_new True 128000 True) = ElementStateNull
   \<and> setState_aac faac_env_ok (AudioEncoderFaacElement_new True 128000 True) ElementStateNull
       = (False, AudioEncoderFaacElement_new True 128000 True)
   \<and> \<not> m_initialized video_only_muxer
   \<and> uninit_webm exact_ops webm_env_ok video_only_muxer = video_only_muxer
   \<and> state_webm video_only_muxer = ElementStateNull
   \<and> setState_webm exact_ops webm_env_ok video_only_muxer ElementStateNull
       = (False, video_only_muxer)
   \<and> \<not> m_pwStreamLoop AudioDevPipeWire_new \<and> \<not> m_pwStream AudioDevPipeWire_new
   \<and> \<not> m_pwStreamContext AudioDevPipeWire_new \<and> m_buffers AudioDevPipeWire_new = []
   \<and> uninit_pw AudioDevPipeWire_new = (True, AudioDevPipeWire_new)
   \<and> calls_pw (snd (uninit_pw (AudioDevPipeWire_new
         \<lparr>m_pwStreamLoop := True, m_pwStreamContext := True, m_pwStream := True,
          m_buffers := [1, 2, 3]\<rparr>)))
       = [pwThreadLoopStop, pwStreamDisconnect, pwStreamDestroy, pwContextDestroy,
          pwThreadLoopDestroy]
   \<and> uninit_pw (snd (uninit_pw (AudioDevPipeWire_new
         \<lparr>m_pwStreamLoop := True, m_pwStreamContext := True, m_pwStream := True,
          m_buffers := [1, 2, 3]\<rparr>)))
       = (True, snd (uninit_pw (AudioDevPipeWire_new
         \<lparr>m_pwStreamLoop := True, m_pwStreamContext := True, m_pwStream := True,
          m_buffers := [1, 2, 3]\<rparr>)))"
proof -
  have a: "\<not> m_initialized_aac (AudioEncoderFaacElement_new True 128000 True)"
    "state_aac (AudioEncoderFaacElement_new True 128000 True) = ElementStateNull"
    by (simp_all add: AudioEncoderFaacElement_new_def)
  have m: "\<not> m_initialized video_only_muxer" "state_webm video_only_muxer = ElementStateNull"
    by (simp_all add: video_only_muxer_def VideoMuxerWebmElement_new_def)
  have p: "\<not> m_pwStreamLoop AudioDevPipeWire_new" "\<not> m_pwStream AudioDevPipeWire_new"
    "\<not> m_pwStreamContext AudioDevPipeWire_new" "m_buffers AudioDevPipeWire_new = []"
    by (simp_all add: AudioDevPipeWire_new_def)
  have c: "calls_pw (snd (uninit_pw (AudioDevPipeWire_new
         \<lparr>m_pwStreamLoop := True, m_pwStreamContext := True, m_pwStream := True,
          m_buffers := [1, 2, 3]\<rparr>)))
       = [pwThreadLoopStop, pwStreamDisconnect, pwStreamDestroy, pwContextDestroy,
          pwThreadLoopDestroy]"
    by (simp add: uninit_pw_def AudioDevPipeWire_new_def)
  note t1 = uninit_idempotent [of "AudioEncoderFaacElement_new True 128000 True" faac_env_ok
      faac_env_ok video_only_muxer exact_ops webm_env_ok webm_env_ok AudioDevPipeWire_new]
  note t2 = uninit_idempotent [of "AudioEncoderFaacElement_new True 128000 True" faac_env_ok
      faac_env_ok video_only_muxer exact_ops webm_env_ok webm_env_ok "AudioDevPipeWire_new
         \<lparr>m_pwStreamLoop := True, m_pwStreamContext := True, m_pwStream := True,
          m_buffers := [1, 2, 3]\<rparr>"]
  from t1 a m p have
    "uninit_aac faac_env_ok (AudioEncoderFaacElement_new True 128000 True)
       = AudioEncoderFaacElement_new True 128000 True"
    "setState_aac faac_env_ok (AudioEncoderFaacElement_new True 128000 True) ElementStateNull
       = (False, AudioEncoderFaacElement_new True 128000 True)"
    "uninit_webm exact_ops webm_env_ok video_only_muxer = video_only_muxer"
    "setState_webm exact_ops webm_env_ok video_only_muxer ElementStateNull
       = (False, video_only_muxer)"
    "uninit_pw AudioDevPipeWire_new = (True, AudioDevPipeWire_new)"
    by blast+
  with a m p c t2 show ?thesis by blast
qed

subsection \<open>The muxer rejects configuration errors before it opens the file\<close>

lemma VideoCodecsTable_byCodecID_unknown:
  "fst (VideoCodecsTable_byCodecID c) = VideoCodecID_unknown
   \<longleftrightarrow> c \<notin> {VideoCodecID_vp8, VideoCodecID_vp9, VideoCodecID_av1}"
  by (cases c) (simp_all add: VideoCodecsTable_byCodecID_def webmVideoCodecsTable_def)

lemma AudioCodecsTable_byCodecID_unknown:
  "fst (AudioCodecsTable_byCodecID c) = AudioCodecID_unknown
   \<longleftrightarrow> c \<notin> {AudioCodecID_vorbis, AudioCodecID_opus}"
  by (cases c) (simp_all add: AudioCodecsTable_byCodecID_def webmAudioCodecsTable_def)

lemma moveCuesBeforeClusters_caps [simp]:
  "streamCaps_Video (moveCuesBeforeClusters env s) = streamCaps_Video s"
  "streamCaps_Audio (moveCuesBeforeClusters env s) = streamCaps_Audio s"
  "m_packetSync (moveCuesBeforeClusters env s) = m_packetSync s"
  by (simp_all add: moveCuesBeforeClusters_def Let_def)

lemma packetReady_packetSync [simp]:
  "m_packetSync (packetReady ops s p) = m_packetSync s"
  by (simp add: packetReady_def Let_def)

lemma fold_packetReady_packetSync [simp]:
  "m_packetSync (fold (\<lambda>packet st. packetReady ops st packet) ps s) = m_packetSync s"
  by (induction ps arbitrary: s) simp_all

lemma stopPacketSync_caps [simp]:
  "streamCaps_Video (stopPacketSync ops env s) = streamCaps_Video s"
  "streamCaps_Audio (stopPacketSync ops env s) = streamCaps_Audio s"
  "m_packetSync (stopPacketSync ops env s) = m_packetSync s"
  by (simp_all add: stopPacketSync_def)

lemma uninit_webm_caps [simp]:
  "streamCaps_Video (uninit_webm ops env s) = streamCaps_Video s"
  "streamCaps_Audio (uninit_webm ops env s) = streamCaps_Audio s"
  "m_packetSync (uninit_webm ops env s) = m_packetSync s"
  by (simp_all add: uninit_webm_def Let_def)

lemma init_webm_configuration_error:
  assumes "\<not> AkCompressedVideoCaps_bool (streamCaps_Video s)
         \<or> cvc_codec (streamCaps_Video s) \<notin> {VideoCodecID_vp8, VideoCodecID_vp9, VideoCodecID_av1}
         \<or> (AkCompressedAudioCaps_bool (streamCaps_Audio s)
             \<and> cac_codec (streamCaps_Audio s) \<notin> {AudioCodecID_vorbis, AudioCodecID_opus})"
  shows "init_webm ops env s =
      (False,
       if m_packetSync s
       then (uninit_webm ops env s)\<lparr>m_audioDuration := q_zero ops, m_videoDuration := q_zero ops,
              m_audioTrackIndex := 0, m_videoTrackIndex := 0\<rparr>
       else uninit_webm ops env s)"
  using assms
  by (auto simp: init_webm_def Let_def VideoCodecsTable_byCodecID_unknown
      AudioCodecsTable_byCodecID_unknown)

text \<open>
  Claim C4. If the video caps are not valid, or their codec is none of \<open>vp8\<close>, \<open>vp9\<close> and
  \<open>av1\<close>, or there are valid audio caps whose codec is neither \<open>vorbis\<close> nor \<open>opus\<close>, then
  \<^verbatim>\<open>init\<close> returns false and makes no call beyond those of the \<^verbatim>\<open>uninit\<close> it begins with,
  which makes none on an element that is not initialized, as every element in the state
  \<open>Null\<close> is: the writer is not opened, so no file is created, and neither segment nor
  track is touched. The element is not initialized afterwards.
\<close>

theorem init_webm_rejects_before_open:
  assumes "\<not> AkCompressedVideoCaps_bool (streamCaps_Video s)
         \<or> cvc_codec (streamCaps_Video s) \<notin> {VideoCodecID_vp8, VideoCodecID_vp9, VideoCodecID_av1}
         \<or> (AkCompressedAudioCaps_bool (streamCaps_Audio s)
             \<and> cac_codec (streamCaps_Audio s) \<notin> {AudioCodecID_vorbis, AudioCodecID_opus})"
  shows "\<not> fst (init_webm ops env s)
       \<and> calls (snd (init_webm ops env s)) = calls (uninit_webm ops env s)
       \<and> \<not> m_initialized (snd (init_webm ops env s))
       \<and> (\<not> m_initialized s \<longrightarrow> calls (snd (init_webm ops env s)) = calls s)"
  unfolding init_webm_configuration_error [OF assms]
  by (simp add: uninit_webm_not_initialized uninit_webm_noop)

text \<open>Valid caps of a codec outside the table are rejected without a single call; with VP9
  caps the same muxer opens the file.\<close>

theorem init_webm_rejects_before_open_witness:
  "AkCompressedVideoCaps_bool (streamCaps_Video (video_only_muxer\<lparr>streamCaps_Video := other_codec_caps\<rparr>))
   \<and> cvc_codec (streamCaps_Video (video_only_muxer\<lparr>streamCaps_Video := other_codec_caps\<rparr>))
        \<notin> {VideoCodecID_vp8, VideoCodecID_vp9, VideoCodecID_av1}
   \<and> \<not> m_initialized (video_only_muxer\<lparr>streamCaps_Video := other_codec_caps\<rparr>)
   \<and> \<not> fst (init_webm exact_ops webm_env_ok (video_only_muxer\<lparr>streamCaps_Video := other_codec_caps\<rparr>))
   \<and> calls (snd (init_webm exact_ops webm_env_ok
              (video_only_muxer\<lparr>streamCaps_Video := other_codec_caps\<rparr>))) = []
   \<and> fst (init_webm exact_ops webm_env_ok video_only_muxer)
   \<and> writer_Open ''/tmp/out.webm''
        \<in> set (calls (snd (init_webm exact_ops webm_env_ok video_only_muxer)))"
proof -
  define s where "s = video_only_muxer\<lparr>streamCaps_Video := other_codec_caps\<rparr>"
  have v: "AkCompressedVideoCaps_bool (streamCaps_Video s)"
    by (simp add: s_def other_codec_caps_def vp9_caps_def AkCompressedVideoCaps_bool_def
        AkVideoCaps_bool_def word_sless_alt)
  have c: "cvc_codec (streamCaps_Video s) \<notin> {VideoCodecID_vp8, VideoCodecID_vp9, VideoCodecID_av1}"
    by (simp add: s_def other_codec_caps_def)
  have i: "\<not> m_initialized s" and e: "calls s = []"
    by (simp_all add: s_def video_only_muxer_def VideoMuxerWebmElement_new_def)
  have h: "\<not> AkCompressedVideoCaps_bool (streamCaps_Video s)
         \<or> cvc_codec (streamCaps_Video s) \<notin> {VideoCodecID_vp8, VideoCodecID_vp9, VideoCodecID_av1}
         \<or> (AkCompressedAudioCaps_bool (streamCaps_Audio s)
             \<and> cac_codec (streamCaps_Audio s) \<notin> {AudioCodecID_vorbis, AudioCodecID_opus})"
    using c by blast
  have ok: "fst (init_webm exact_ops webm_env_ok video_only_muxer)
     \<and> writer_Open ''/tmp/out.webm''
        \<in> set (calls (snd (init_webm exact_ops webm_env_ok video_only_muxer)))"
    by (simp add: init_webm_def init_segment_def init_videoTrack_def init_audioTrack_def
        init_headers_def fail_init_def uninit_webm_def video_only_muxer_def
        VideoMuxerWebmElement_new_def vp9_caps_def webm_env_ok_def exact_ops_def
        AkCompressedVideoCaps_bool_def AkVideoCaps_bool_def AkCompressedAudioCaps_bool_def
        AkCompressedAudioCaps_default_def AkAudioCaps_default_def
        VideoCodecsTable_byCodecID_def webmVideoCodecsTable_def
        AudioCodecsTable_byCodecID_def webmAudioCodecsTable_def
        word_sless_alt Let_def call_def)
  from init_webm_rejects_before_open [OF h, of exact_ops webm_env_ok]
  have f: "\<not> fst (init_webm exact_ops webm_env_ok s)"
    and "\<not> m_initialized s \<longrightarrow> calls (snd (init_webm exact_ops webm_env_ok s)) = calls s"
    by blast+
  with i e have "calls (snd (init_webm exact_ops webm_env_ok s)) = []"
    by simp
  with f i v c ok show ?thesis unfolding s_def by blast
qed

subsection \<open>A session of the muxer without audio\<close>

lemma quiet_simps [simp]:
  "quiet []"
  "quiet (x # xs) \<longleftrightarrow> quiet_call x \<and> quiet xs"
  "quiet (xs @ ys) \<longleftrightarrow> quiet xs \<and> quiet ys"
  by (simp_all add: quiet_def)


lemma calls_packetReady:
  "calls (packetReady ops s p) =
     calls s @ [segment_AddFrame (pk_data p) (of_nat (length (pk_data p)))
                  (if isAudio p then m_audioTrackIndex s else m_videoTrackIndex s)
                  (frameTimestamp ops p)
                  (if pk_type p = PacketVideoCompressed then pk_keyFrame p else True)]"
  by (simp add: packetReady_def Let_def)




















subsection \<open>Time stamps and durations of the muxer\<close>

lemma calls_fold_packetReady_frames:
  "calls (fold (\<lambda>packet st. packetReady ops st packet) ps s) =
     calls s @ map (\<lambda>p. segment_AddFrame (pk_data p) (of_nat (length (pk_data p)))
                        (if isAudio p then m_audioTrackIndex s else m_videoTrackIndex s)
                        (frameTimestamp ops p)
                        (if pk_type p = PacketVideoCompressed then pk_keyFrame p else True)) ps"
  by (induction ps arbitrary: s) (simp_all add: calls_packetReady)









subsection \<open>Time stamps in a track and in the AAC stream\<close>

text \<open>The muxer adds the frames of a packet sequence in the order of the packets, each to
  the track of its type and with its own time stamp. When the double operations keep the
  order and the nanoseconds of the packets are in the range of \<^verbatim>\<open>uint64_t\<close>, the time stamps
  of a synchronized sequence are in order, and so are those of each track.\<close>

lemma trackTimestamps_append [simp]:
  "trackTimestamps t (xs @ ys) = trackTimestamps t xs @ trackTimestamps t ys"
  by (simp add: trackTimestamps_def)

lemma trackTimestamps_frames:
  "trackTimestamps t
     (map (\<lambda>p. segment_AddFrame (pk_data p) (of_nat (length (pk_data p)))
                  (if isAudio p then a else v) (frameTimestamp ops p)
                  (if pk_type p = PacketVideoCompressed then pk_keyFrame p else True)) ps) =
   map (frameTimestamp ops) (filter (\<lambda>p. (if isAudio p then a else v) = t) ps)"
  by (induction ps) (simp_all add: trackTimestamps_def)

lemma trackTimestamps_packetReady:
  "trackTimestamps t
     (drop (length (calls s)) (calls (fold (\<lambda>packet st. packetReady ops st packet) ps s))) =
   map (frameTimestamp ops)
     (filter (\<lambda>p. (if isAudio p then m_audioTrackIndex s else m_videoTrackIndex s) = t) ps)"
  by (simp add: calls_fold_packetReady_frames trackTimestamps_frames)

lemma frameTimestamp_presentationTime:
  "frameTimestamp ops p = q_to_uint64 ops (q_mul ops (presentationTime ops p) (q_1e9 ops))"
  by (simp add: frameTimestamp_def presentationTime_def)

lemma frameTimestamp_mono:
  assumes "keeps_order ops"
    and "nanoseconds_in_range ops a" "nanoseconds_in_range ops b"
    and "\<not> q_less ops (presentationTime ops b) (presentationTime ops a)"
  shows "frameTimestamp ops a \<le> frameTimestamp ops b"
proof -
  from assms(1,4)
  have "\<not> q_less ops (q_mul ops (presentationTime ops b) (q_1e9 ops))
                     (q_mul ops (presentationTime ops a) (q_1e9 ops))"
    unfolding keeps_order_def by blast
  with assms(1-3) show ?thesis
    unfolding keeps_order_def nanoseconds_in_range_def Let_def frameTimestamp_presentationTime
    by blast
qed

lemma synchronized_frameTimestamps:
  assumes "keeps_order ops" "synchronized ops ps" "\<forall>p\<in>set ps. nanoseconds_in_range ops p"
  shows "sorted (map (frameTimestamp ops) ps)"
proof -
  have "sorted_wrt (\<lambda>a b. frameTimestamp ops a \<le> frameTimestamp ops b) ps"
    using assms(2) unfolding synchronized_def
  proof (rule sorted_wrt_mono_rel [rotated])
    fix a b
    assume "a \<in> set ps" "b \<in> set ps"
      and "\<not> q_less ops (presentationTime ops b) (presentationTime ops a)"
    with assms(1,3) show "frameTimestamp ops a \<le> frameTimestamp ops b"
      by (intro frameTimestamp_mono) auto
  qed
  then show ?thesis by (simp add: sorted_map)
qed

lemma sorted_track:
  assumes "keeps_order ops" "synchronized ops ps" "\<forall>p\<in>set ps. nanoseconds_in_range ops p"
  shows "sorted (trackTimestamps t
           (drop (length (calls s))
              (calls (fold (\<lambda>packet st. packetReady ops st packet) ps s))))"
  unfolding trackTimestamps_packetReady
  using synchronized_frameTimestamps [OF assms]
  by (simp add: sorted_wrt_map sorted_wrt_filter)

text \<open>Exact arithmetic keeps the order.\<close>

lemma word_of_int_mono64:
  assumes "0 \<le> a" "a \<le> b" "b < 18446744073709551616"
  shows "(word_of_int a :: 64 word) \<le> word_of_int b"
  using assms by (simp add: word_le_def uint_word_of_int take_bit_int_eq_self)

lemma exact_ops_keeps_order: "keeps_order exact_ops"
proof -
  have m: "(word_of_int \<lfloor>u\<rfloor> :: 64 word) \<le> word_of_int \<lfloor>v\<rfloor>"
    if "0 \<le> u" "u \<le> v" "v < 18446744073709551615" for u v :: rat
  proof (rule word_of_int_mono64)
    show "0 \<le> \<lfloor>u\<rfloor>" using that(1) by simp
    show "\<lfloor>u\<rfloor> \<le> \<lfloor>v\<rfloor>" using that(2) by (rule floor_mono)
    show "\<lfloor>v\<rfloor> < 18446744073709551616" using that(3) by (simp add: floor_less_iff)
  qed
  have "uint (- 1 :: 64 word) = 18446744073709551615"
    by (simp add: unsigned_minus_1_eq_mask mask_eq_exp_minus_1)
  from of_int_uint [of "- 1 :: 64 word", where ?'a = rat, unfolded this]
  have u: "(unsigned (- 1 :: 64 word) :: rat) = 18446744073709551615" by simp
  show ?thesis
    unfolding keeps_order_def by (auto simp: exact_ops_def u not_less intro: m)
qed

text \<open>The packets that \<^verbatim>\<open>encodeFrame\<close> emits for a sequence of frames, their time stamps
  and the time stamp counter.\<close>

lemma oStreamPackets_append [simp]:
  "oStreamPackets (xs @ ys) = oStreamPackets xs @ oStreamPackets ys"
  by (simp add: oStreamPackets_def)

lemma oStreamPackets_simps [simp]:
  "oStreamPackets [] = []"
  "oStreamPackets (oStream p # sigs) = p # oStreamPackets sigs"
  "oStreamPackets (encodedTimePtsChanged n # sigs) = oStreamPackets sigs"
  "oStreamPackets (headersChanged h # sigs) = oStreamPackets sigs"
  "oStreamPackets (outputCapsChanged c # sigs) = oStreamPackets sigs"
  by (simp_all add: oStreamPackets_def)

lemma encodeFrame_emits:
  assumes "emits f"
  shows "\<exists>x. oStreamPackets (emitted_aac (encodeFrame e f)) = oStreamPackets (emitted_aac e) @ [x]
           \<and> cap_pts x = m_pts e \<and> cap_duration x = ap_samples (fst f)"
    and "m_pts (encodeFrame e f) = m_pts e + ap_samples (fst f)"
proof -
  have n: "\<not> snd f <s 0" using assms by (auto simp: emits_def word_sless_alt)
  show "\<exists>x. oStreamPackets (emitted_aac (encodeFrame e f)) = oStreamPackets (emitted_aac e) @ [x]
           \<and> cap_pts x = m_pts e \<and> cap_duration x = ap_samples (fst f)"
    using assms n by (simp add: emits_def encodeFrame_def sendFrame_def Let_def)
  show "m_pts (encodeFrame e f) = m_pts e + ap_samples (fst f)"
    using assms n by (simp add: emits_def encodeFrame_def sendFrame_def Let_def)
qed

lemma encodeFrame_silent:
  assumes "\<not> emits f"
  shows "oStreamPackets (emitted_aac (encodeFrame e f)) = oStreamPackets (emitted_aac e)"
    and "m_pts (encodeFrame e f) = m_pts e"
  using assms by (auto simp: emits_def encodeFrame_def Let_def)

lemma fold_encodeFrame_chain:
  "\<exists>out. oStreamPackets (emitted_aac (fold (\<lambda>frame st. encodeFrame st frame) fs e))
            = oStreamPackets (emitted_aac e) @ out
         \<and> pts_chain (m_pts e) out
         \<and> m_pts (fold (\<lambda>frame st. encodeFrame st frame) fs e)
            = m_pts e + sum_list (map cap_duration out)
         \<and> map cap_duration out = map (\<lambda>f. ap_samples (fst f)) (filter emits fs)"
proof (induction fs arbitrary: e)
  case Nil
  then show ?case by simp
next
  case (Cons f fs)
  obtain out where out:
    "oStreamPackets (emitted_aac (fold (\<lambda>frame st. encodeFrame st frame) fs (encodeFrame e f)))
       = oStreamPackets (emitted_aac (encodeFrame e f)) @ out"
    "pts_chain (m_pts (encodeFrame e f)) out"
    "m_pts (fold (\<lambda>frame st. encodeFrame st frame) fs (encodeFrame e f))
       = m_pts (encodeFrame e f) + sum_list (map cap_duration out)"
    "map cap_duration out = map (\<lambda>f. ap_samples (fst f)) (filter emits fs)"
    using Cons.IH by blast
  show ?case
  proof (cases "emits f")
    case True
    from encodeFrame_emits [OF True, of e] obtain x where x:
      "oStreamPackets (emitted_aac (encodeFrame e f)) = oStreamPackets (emitted_aac e) @ [x]"
      "cap_pts x = m_pts e" "cap_duration x = ap_samples (fst f)"
      and m: "m_pts (encodeFrame e f) = m_pts e + ap_samples (fst f)"
      by blast
    have "oStreamPackets (emitted_aac (fold (\<lambda>frame st. encodeFrame st frame) (f # fs) e))
            = oStreamPackets (emitted_aac e) @ (x # out)"
      using out(1) x(1) by simp
    moreover have "pts_chain (m_pts e) (x # out)"
      using out(2) x m by simp
    moreover have "m_pts (fold (\<lambda>frame st. encodeFrame st frame) (f # fs) e)
            = m_pts e + sum_list (map cap_duration (x # out))"
      using out(3) x m by simp
    moreover have "map cap_duration (x # out) = map (\<lambda>f. ap_samples (fst f)) (filter emits (f # fs))"
      using out(4) x True by simp
    ultimately show ?thesis by blast
  next
    case False
    from encodeFrame_silent [OF False, of e] out False show ?thesis
      by (intro exI [of _ out]) simp
  qed
qed

lemma pts_chain_nth:
  "pts_chain p out \<Longrightarrow> k < length out \<Longrightarrow>
   cap_pts (out ! k) = p + sum_list (map cap_duration (take k out))"
proof (induction out arbitrary: p k)
  case Nil
  then show ?case by simp
next
  case (Cons x out)
  show ?case
  proof (cases k)
    case 0
    with Cons.prems show ?thesis by simp
  next
    case (Suc j)
    with Cons.prems have "cap_pts (out ! j) = (p + cap_duration x) + sum_list (map cap_duration (take j out))"
      using Cons.IH [of "p + cap_duration x" j] by simp
    with Suc show ?thesis by (simp add: add.assoc)
  qed
qed

lemma stb63: "- 9223372036854775808 \<le> (x::int) \<Longrightarrow> x < 9223372036854775808 \<Longrightarrow> signed_take_bit 63 x = x"
  by (rule signed_take_bit_int_eq_self) simp_all

lemma sint_add64:
  fixes a b :: qint64
  assumes "0 \<le> sint a" "0 \<le> sint b" "sint a + sint b < 9223372036854775808"
  shows "sint (a + b) = sint a + sint b"
  using assms by (simp add: sint_word_add stb63)

lemma pts_chain_increasing:
  assumes "pts_chain p out" "0 \<le> sint p"
    and "\<forall>x\<in>set out. 0 < sint (cap_duration x)"
    and "sint p + (\<Sum>x\<leftarrow>out. sint (cap_duration x)) < 9223372036854775808"
  shows "sorted_wrt (\<lambda>a b. cap_pts a <s cap_pts b) out \<and> (\<forall>x\<in>set out. sint p \<le> sint (cap_pts x))"
  using assms
proof (induction out arbitrary: p)
  case Nil
  then show ?case by simp
next
  case (Cons x out)
  have d: "0 < sint (cap_duration x)" using Cons.prems(3) by simp
  have nn: "\<forall>y\<in>set out. 0 < sint (cap_duration y)" using Cons.prems(3) by simp
  then have s0: "0 \<le> (\<Sum>y\<leftarrow>out. sint (cap_duration y))"
    by (induction out) (auto simp: add_nonneg_nonneg less_imp_le)
  have b: "sint p + sint (cap_duration x) + (\<Sum>y\<leftarrow>out. sint (cap_duration y)) < 9223372036854775808"
    using Cons.prems(4) by simp
  then have e: "sint (p + cap_duration x) = sint p + sint (cap_duration x)"
    using Cons.prems(2) d s0 by (intro sint_add64) simp_all
  have "sorted_wrt (\<lambda>a b. cap_pts a <s cap_pts b) out
      \<and> (\<forall>y\<in>set out. sint (p + cap_duration x) \<le> sint (cap_pts y))"
    using Cons.prems(1,2) d nn b e by (intro Cons.IH) simp_all
  then show ?case
    using Cons.prems(1) d e by (auto simp: word_sless_alt)
qed

lemma sum_emitted_le:
  assumes "\<forall>f\<in>set fs. 0 <s ap_samples (fst f)"
  shows "(\<Sum>f\<leftarrow>filter emits fs. sint (ap_samples (fst f))) \<le> (\<Sum>f\<leftarrow>fs. sint (ap_samples (fst f)))"
  using assms by (induction fs) (auto simp: word_sless_alt)


lemma init_aac_pts: "fst (init_aac env e) \<Longrightarrow> m_pts (snd (init_aac env e)) = 0"
  by (auto simp: init_aac_def Let_def split: option.splits prod.splits if_splits)


lemma aac_frames_emitted:
  "map cap_pts (oStreamPackets (emitted_aac
      (fold (\<lambda>frame st. encodeFrame st frame) aac_frames (snd (init_aac faac_env_ok aac_encoder)))))
     = [0, 1024, 2048]"
  "oStreamPackets (emitted_aac (snd (init_aac faac_env_ok aac_encoder))) = []"
  "fst (init_aac faac_env_ok aac_encoder)"
  "m_pts (snd (init_aac faac_env_ok aac_encoder)) = 0"
  "list_all (\<lambda>f. 0 <s ap_samples (fst f)) aac_frames"
  "(\<Sum>f\<leftarrow>aac_frames. sint (ap_samples (fst f))) = 4096"
  "map cap_duration (oStreamPackets (emitted_aac
      (fold (\<lambda>frame st. encodeFrame st frame) aac_frames (snd (init_aac faac_env_ok aac_encoder)))))
     = [1024, 1024, 1024]"
  by code_simp+


text \<open>The example inputs, evaluated.\<close>

lemma negative_pts_facts:
  "fst (init_webm exact_ops webm_env_ok video_only_muxer)"
  "m_videoTrackIndex (snd (init_webm exact_ops webm_env_ok video_only_muxer)) = 1"
  "map (presentationTime exact_ops) negative_pts_packets = [- 1 / 1000, 0]"
  "synchronized exact_ops negative_pts_packets"
  "trackTimestamps 1
     (drop (length (calls (snd (init_webm exact_ops webm_env_ok video_only_muxer))))
        (calls (fold (\<lambda>packet st. packetReady exact_ops st packet) negative_pts_packets
                  (snd (init_webm exact_ops webm_env_ok video_only_muxer))))
      :: rat webm_call list) = [18446744073708551616, 0]"
  by code_simp+

lemma av_packets_in_range:
  "list_all (nanoseconds_in_range exact_ops) av_packets"
  "synchronized exact_ops av_packets"
  "map (presentationTime exact_ops) av_packets = [0, 0, 1 / 50, 1 / 30, 1 / 25, 3 / 50]"
  by code_simp+

lemma av_packets_tracks:
  "m_audioTrackIndex (snd (init_webm exact_ops webm_env_ok av_muxer)) = 2"
  "m_videoTrackIndex (snd (init_webm exact_ops webm_env_ok av_muxer)) = 1"
  "map (frameTimestamp exact_ops) (filter isAudio av_packets)
     = [0, 20000000, 40000000, 60000000]"
  "map (frameTimestamp exact_ops) (filter (\<lambda>p. \<not> isAudio p) av_packets) = [0, 33333333]"
  by code_simp+

text \<open>
  Claim C8, as amended. For every packet sequence, the time stamps of the frames that
  \<^verbatim>\<open>packetReady\<close> adds to a track \<open>t\<close> are the nanosecond time stamps of the packets of that
  track, in the order of the packets. When the sequence is synchronized, that is in the
  order of the presentation times of its packets, every presentation time is in
  nanoseconds at least 0 and below \<^verbatim>\<open>double(UINT64_MAX)\<close>, and the double operations keep the
  order on that range, the time stamps of each track never decrease. The packets that the AAC encoder emits for a
  sequence of frames form a chain: the time stamp of each is the time stamp counter \<open>m_pts\<close>
  at the start plus the durations of the packets emitted before it, the durations being
  the sample counts of the frames that led to a packet, and \<^verbatim>\<open>init\<close> starts the counter at 0.
  When every frame has at least one sample and the counter with the samples of all frames
  stays below \<open>2^63\<close>, the range of the \<^verbatim>\<open>qint64\<close> counter, the time stamps of the emitted
  packets increase strictly.
\<close>

theorem timestamps_increase:
  fixes s :: "'q VideoMuxerWebmElement"
  shows "trackTimestamps t
           (drop (length (calls s))
              (calls (fold (\<lambda>packet st. packetReady ops st packet) ps s))) =
         map (frameTimestamp ops)
           (filter (\<lambda>p. (if isAudio p then m_audioTrackIndex s else m_videoTrackIndex s) = t) ps)
       \<and> (keeps_order ops \<and> synchronized ops ps \<and> (\<forall>p\<in>set ps. nanoseconds_in_range ops p)
            \<longrightarrow> sorted (trackTimestamps t
                  (drop (length (calls s))
                     (calls (fold (\<lambda>packet st. packetReady ops st packet) ps s)))))
       \<and> (let out = drop (length (oStreamPackets (emitted_aac e)))
                        (oStreamPackets (emitted_aac (fold (\<lambda>frame st. encodeFrame st frame) fs e)))
          in (\<forall>k<length out.
                 cap_pts (out ! k) = m_pts e + sum_list (map cap_duration (take k out)))
           \<and> map cap_duration out = map (\<lambda>f. ap_samples (fst f)) (filter emits fs)
           \<and> ((\<forall>f\<in>set fs. 0 <s ap_samples (fst f)) \<and> 0 \<le> sint (m_pts e)
                \<and> sint (m_pts e) + (\<Sum>f\<leftarrow>fs. sint (ap_samples (fst f))) < 2 ^ 63
               \<longrightarrow> sorted_wrt (\<lambda>a b. cap_pts a <s cap_pts b) out))
       \<and> (fst (init_aac env e0) \<longrightarrow> m_pts (snd (init_aac env e0)) = 0)"
proof -
  obtain out where out:
    "oStreamPackets (emitted_aac (fold (\<lambda>frame st. encodeFrame st frame) fs e))
       = oStreamPackets (emitted_aac e) @ out"
    "pts_chain (m_pts e) out"
    "map cap_duration out = map (\<lambda>f. ap_samples (fst f)) (filter emits fs)"
    using fold_encodeFrame_chain [of fs e] by blast
  have d: "drop (length (oStreamPackets (emitted_aac e)))
             (oStreamPackets (emitted_aac (fold (\<lambda>frame st. encodeFrame st frame) fs e))) = out"
    using out(1) by simp
  have "map (\<lambda>x. sint (cap_duration x)) out = map sint (map cap_duration out)"
    by simp
  also have "\<dots> = map (\<lambda>f. sint (ap_samples (fst f))) (filter emits fs)"
    unfolding out(3) by simp
  finally have m: "map (\<lambda>x. sint (cap_duration x)) out
      = map (\<lambda>f. sint (ap_samples (fst f))) (filter emits fs)" .
  have inc: "sorted_wrt (\<lambda>a b. cap_pts a <s cap_pts b) out"
    if h: "\<forall>f\<in>set fs. 0 <s ap_samples (fst f)" "0 \<le> sint (m_pts e)"
      "sint (m_pts e) + (\<Sum>f\<leftarrow>fs. sint (ap_samples (fst f))) < 2 ^ 63"
  proof -
    have pos: "\<forall>x\<in>set out. 0 < sint (cap_duration x)"
    proof
      fix x assume "x \<in> set out"
      then have "sint (cap_duration x) \<in> set (map (\<lambda>x. sint (cap_duration x)) out)" by simp
      then have "sint (cap_duration x) \<in> set (map (\<lambda>f. sint (ap_samples (fst f))) (filter emits fs))"
        unfolding m .
      then show "0 < sint (cap_duration x)"
        using h(1) by (auto simp: word_sless_alt)
    qed
    have "(\<Sum>x\<leftarrow>out. sint (cap_duration x)) \<le> (\<Sum>f\<leftarrow>fs. sint (ap_samples (fst f)))"
      unfolding m using sum_emitted_le [OF h(1)] .
    then have b: "sint (m_pts e) + (\<Sum>x\<leftarrow>out. sint (cap_duration x)) < 9223372036854775808"
      using h(3) by simp
    show ?thesis
      using pts_chain_increasing [OF out(2) h(2) pos b] by blast
  qed
  have nth: "\<forall>k<length out.
      cap_pts (out ! k) = m_pts e + sum_list (map cap_duration (take k out))"
    using pts_chain_nth [OF out(2)] by blast
  have srt: "keeps_order ops \<and> synchronized ops ps \<and> (\<forall>p\<in>set ps. nanoseconds_in_range ops p)
      \<longrightarrow> sorted (trackTimestamps t
            (drop (length (calls s))
               (calls (fold (\<lambda>packet st. packetReady ops st packet) ps s))))"
    using sorted_track [of ops ps t s] by blast
  show ?thesis
    unfolding d Let_def using trackTimestamps_packetReady [of t s ops ps] srt inc nth out(3) init_aac_pts
    by blast
qed

text \<open>The six packets of the two streams are synchronized and in range, and their audio
  track gets the time stamps 0, 20, 40 and 60 ms; \<^verbatim>\<open>init\<close> succeeds and leaves the counter at
  0, and of the four frames of 1024 samples the encoder emits three packets, with the time
  stamps 0, 1024 and 2048.\<close>

theorem timestamps_increase_witness:
  "keeps_order exact_ops
   \<and> synchronized exact_ops av_packets
   \<and> list_all (nanoseconds_in_range exact_ops) av_packets
   \<and> map (presentationTime exact_ops) av_packets = [0, 0, 1 / 50, 1 / 30, 1 / 25, 3 / 50]
   \<and> trackTimestamps 2
        (drop (length (calls (snd (init_webm exact_ops webm_env_ok av_muxer))))
           (calls av_session)) = [0, 20000000, 40000000, 60000000]
   \<and> sorted (trackTimestamps 2
        (drop (length (calls (snd (init_webm exact_ops webm_env_ok av_muxer))))
           (calls av_session)))
   \<and> fst (init_aac faac_env_ok aac_encoder)
   \<and> m_pts (snd (init_aac faac_env_ok aac_encoder)) = 0
   \<and> list_all (\<lambda>f. 0 <s ap_samples (fst f)) aac_frames
   \<and> (\<Sum>f\<leftarrow>aac_frames. sint (ap_samples (fst f))) = 4096
   \<and> map cap_pts (oStreamPackets (emitted_aac
          (fold (\<lambda>frame st. encodeFrame st frame) aac_frames
             (snd (init_aac faac_env_ok aac_encoder))))) = [0, 1024, 2048]
   \<and> map cap_duration (oStreamPackets (emitted_aac
          (fold (\<lambda>frame st. encodeFrame st frame) aac_frames
             (snd (init_aac faac_env_ok aac_encoder))))) = [1024, 1024, 1024]
   \<and> sorted_wrt (\<lambda>a b. cap_pts a <s cap_pts b)
        (oStreamPackets (emitted_aac
          (fold (\<lambda>frame st. encodeFrame st frame) aac_frames
             (snd (init_aac faac_env_ok aac_encoder)))))"
proof -
  have r: "\<forall>p\<in>set av_packets. nanoseconds_in_range exact_ops p"
    using av_packets_in_range(1) by (simp add: list_all_iff)
  have h2: "\<forall>f\<in>set aac_frames. 0 <s ap_samples (fst f)"
    using aac_frames_emitted(5) by (simp add: list_all_iff)
  have h3: "0 \<le> sint (m_pts (snd (init_aac faac_env_ok aac_encoder)))"
    by (simp add: aac_frames_emitted(4))
  have h4: "sint (m_pts (snd (init_aac faac_env_ok aac_encoder)))
      + (\<Sum>f\<leftarrow>aac_frames. sint (ap_samples (fst f))) < 2 ^ 63"
    by (simp add: aac_frames_emitted(4,6))
  note t = timestamps_increase
    [where ops = exact_ops and ps = av_packets and fs = aac_frames
       and e = "snd (init_aac faac_env_ok aac_encoder)"
       and s = "snd (init_webm exact_ops webm_env_ok av_muxer)"
       and t = 2 and env = faac_env_ok and ?e0.0 = aac_encoder]
  from t have v: "trackTimestamps 2
        (drop (length (calls (snd (init_webm exact_ops webm_env_ok av_muxer))))
           (calls av_session)) = [0, 20000000, 40000000, 60000000]"
    unfolding av_session_def [symmetric] av_packets_tracks(1,2)
    using av_packets_tracks(3) by (simp add: isAudio_def cong: filter_cong)
  from t exact_ops_keeps_order av_packets_in_range(2) r
  have a: "sorted (trackTimestamps 2
        (drop (length (calls (snd (init_webm exact_ops webm_env_ok av_muxer))))
           (calls av_session)))"
    unfolding av_session_def [symmetric] by blast
  from t h2 h3 h4 have b: "sorted_wrt (\<lambda>a b. cap_pts a <s cap_pts b)
        (oStreamPackets (emitted_aac
          (fold (\<lambda>frame st. encodeFrame st frame) aac_frames
             (snd (init_aac faac_env_ok aac_encoder)))))"
    unfolding Let_def aac_frames_emitted(2) by simp
  from t aac_frames_emitted(3) have z: "m_pts (snd (init_aac faac_env_ok aac_encoder)) = 0"
    by blast
  from v a b z exact_ops_keeps_order av_packets_in_range aac_frames_emitted show ?thesis
    by blast
qed

text \<open>
  Claim C8 as stated, for every synchronized sequence, fails for two video packets with
  the time stamps \<open>-1\<close> and 0 in milliseconds. They are in the order of their presentation
  times, but the first gets the nanosecond time stamp \<open>2^64 - 1000000\<close>, the conversion of
  \<open>-1000000\<close> to \<^verbatim>\<open>uint64_t\<close>, and the second gets 0.
\<close>

theorem timestamps_negative_pts_counterexample:
  "fst (init_webm exact_ops webm_env_ok video_only_muxer)
   \<and> m_videoTrackIndex (snd (init_webm exact_ops webm_env_ok video_only_muxer)) = 1
   \<and> map (presentationTime exact_ops) negative_pts_packets = [- 1 / 1000, 0]
   \<and> synchronized exact_ops negative_pts_packets
   \<and> trackTimestamps 1
        (drop (length (calls (snd (init_webm exact_ops webm_env_ok video_only_muxer))))
           (calls (fold (\<lambda>packet st. packetReady exact_ops st packet) negative_pts_packets
                     (snd (init_webm exact_ops webm_env_ok video_only_muxer)))))
       = [18446744073708551616, 0]
   \<and> \<not> sorted (trackTimestamps 1
        (drop (length (calls (snd (init_webm exact_ops webm_env_ok video_only_muxer))))
           (calls (fold (\<lambda>packet st. packetReady exact_ops st packet) negative_pts_packets
                     (snd (init_webm exact_ops webm_env_ok video_only_muxer))))))"
  unfolding negative_pts_facts(5) using negative_pts_facts(1-4) by simp

end
